theory Spec2Isabelle
  imports Main "HOL-Library.Char_ord" "HOL-Library.List_Lexorder"
begin

section \<open>Python values used by the exporter\<close>

text \<open>
  The exporter is one Python module, \<^verbatim>\<open>citiengov_export_gml.py\<close>. Its strings are
  modelled as \<^typ>\<open>string\<close>, a list of code points below 256; \<^verbatim>\<open>None\<close> is
  \<^term>\<open>None\<close>, so the \<^verbatim>\<open>text\<close> of an XML element is a \<^typ>\<open>string option\<close>.
  Every exception the module can raise on the paths modelled here is a value of
  \<open>error\<close>. The two \<^verbatim>\<open>raise UnboundLocalError\<close> statements of
  \<^verbatim>\<open>make_demand\<close> are told apart by their site; the message text is not modelled.
\<close>

datatype raise_site = ESourceExpected | YearsConsecutive

datatype error =
    IndexError
  | AttributeError
  | KeyError
  | TypeError
  | ValueError
  | UnboundLocalError raise_site
  | StopIteration

text \<open>\<^verbatim>\<open>str.lower()\<close> on code points below 256: A-Z and the Latin-1 capitals.\<close>

definition lower_char :: "char \<Rightarrow> char" where
  "lower_char c =
     (let n = (of_char c :: nat)
      in if (65 \<le> n \<and> n \<le> 90) \<or> (192 \<le> n \<and> n \<le> 222 \<and> n \<noteq> 215)
         then char_of (n + 32) else c)"

definition py_lower :: "string \<Rightarrow> string" where
  "py_lower s = map lower_char s"

text \<open>\<^verbatim>\<open>str.isspace()\<close> for one code point below 256.\<close>

definition py_isspace :: "char \<Rightarrow> bool" where
  "py_isspace c =
     (let n = (of_char c :: nat)
      in (9 \<le> n \<and> n \<le> 13) \<or> (28 \<le> n \<and> n \<le> 32) \<or> n = 133 \<or> n = 160)"

text \<open>\<^verbatim>\<open>s.strip(chars)\<close>, \<^verbatim>\<open>s.rstrip(chars)\<close> and \<^verbatim>\<open>s.strip()\<close>.\<close>

definition py_rstrip_chars :: "string \<Rightarrow> string \<Rightarrow> string" where
  "py_rstrip_chars chars s = rev (dropWhile (\<lambda>c. c \<in> set chars) (rev s))"

definition py_strip_chars :: "string \<Rightarrow> string \<Rightarrow> string" where
  "py_strip_chars chars s = dropWhile (\<lambda>c. c \<in> set chars) (py_rstrip_chars chars s)"

definition py_strip :: "string \<Rightarrow> string" where
  "py_strip s = dropWhile py_isspace (rev (dropWhile py_isspace (rev s)))"

text \<open>\<^verbatim>\<open>s.split(sep)\<close> for a one-character separator: \<^verbatim>\<open>''.split(',') == ['']\<close>.\<close>

fun py_split :: "char \<Rightarrow> string \<Rightarrow> string list" where
  "py_split sep [] = [[]]"
| "py_split sep (c # cs) =
     (if c = sep then [] # py_split sep cs
      else (case py_split sep cs of
              [] \<Rightarrow> [[c]]
            | w # ws \<Rightarrow> (c # w) # ws))"

text \<open>\<^verbatim>\<open>s.partition(sep)\<close> and \<^verbatim>\<open>s.rpartition(sep)\<close> for a one-character separator.\<close>

definition py_partition :: "char \<Rightarrow> string \<Rightarrow> string \<times> string \<times> string" where
  "py_partition sep s =
     (if sep \<in> set s
      then (takeWhile (\<lambda>c. c \<noteq> sep) s, [sep], tl (dropWhile (\<lambda>c. c \<noteq> sep) s))
      else (s, [], []))"

definition py_rpartition :: "char \<Rightarrow> string \<Rightarrow> string \<times> string \<times> string" where
  "py_rpartition sep s =
     (if sep \<in> set s
      then (rev (tl (dropWhile (\<lambda>c. c \<noteq> sep) (rev s))), [sep],
            rev (takeWhile (\<lambda>c. c \<noteq> sep) (rev s)))
      else ([], [], s))"

text \<open>What \<^verbatim>\<open>'{y}'.format(y=v)\<close> prints for a text that may be \<^verbatim>\<open>None\<close>.\<close>

definition py_format :: "string option \<Rightarrow> string" where
  "py_format v = (case v of None \<Rightarrow> ''None'' | Some s \<Rightarrow> s)"

text \<open>\<^verbatim>\<open>str(n)\<close> for a length.\<close>

definition digit_char :: "nat \<Rightarrow> char" where
  "digit_char d = char_of (48 + d)"

fun py_str_nat :: "nat \<Rightarrow> string" where
  "py_str_nat n =
     (if n < 10 then [digit_char n] else py_str_nat (n div 10) @ [digit_char (n mod 10)])"

text \<open>
  \<^verbatim>\<open>int(s)\<close> in base ten: surrounding white space is dropped, one sign is allowed,
  then decimal digits, where a single underscore may stand between two digits; anything
  else is a \<^verbatim>\<open>ValueError\<close>. \<^verbatim>\<open>int(None)\<close> is a \<^verbatim>\<open>TypeError\<close>. (The limit
  on the number of digits that recent interpreters add is not modelled.)
\<close>

definition is_digit :: "char \<Rightarrow> bool" where
  "is_digit c = (let n = (of_char c :: nat) in 48 \<le> n \<and> n \<le> 57)"

definition digit_val :: "char \<Rightarrow> int" where
  "digit_val c = int (of_char c) - 48"

fun digits_val :: "string \<Rightarrow> int \<Rightarrow> int option" where
  "digits_val [] acc = Some acc"
| "digits_val (c # cs) acc =
     (if is_digit c then digits_val cs (10 * acc + digit_val c)
      else if c = CHR ''_'' then
        (case cs of
           [] \<Rightarrow> None
         | d # ds \<Rightarrow> if is_digit d then digits_val ds (10 * acc + digit_val d) else None)
      else None)"

definition unsigned_val :: "string \<Rightarrow> int option" where
  "unsigned_val s =
     (case s of
        [] \<Rightarrow> None
      | c # cs \<Rightarrow> if is_digit c then digits_val cs (digit_val c) else None)"

definition py_int_str :: "string \<Rightarrow> error + int" where
  "py_int_str s =
     (let t = py_strip s;
          r = (case t of
                 [] \<Rightarrow> None
               | c # cs \<Rightarrow>
                   if c = CHR ''-'' then map_option uminus (unsigned_val cs)
                   else if c = CHR ''+'' then unsigned_val cs
                   else unsigned_val t)
      in case r of None \<Rightarrow> Inl ValueError | Some n \<Rightarrow> Inr n)"

definition py_int :: "string option \<Rightarrow> error + int" where
  "py_int v = (case v of None \<Rightarrow> Inl TypeError | Some s \<Rightarrow> py_int_str s)"

text \<open>
  \<^verbatim>\<open>sorted(xs)\<close> on a list of texts: strings compare by code point, lexicographically;
  any comparison with \<^verbatim>\<open>None\<close> is a \<^verbatim>\<open>TypeError\<close>, and a list of two or more
  elements has every element compared at least once.
\<close>

definition py_sorted :: "string option list \<Rightarrow> error + string option list" where
  "py_sorted xs =
     (if length xs \<le> 1 then Inr xs
      else if None \<in> set xs then Inl TypeError
      else Inr (map Some (sort (map the xs))))"

text \<open>A dict literal or comprehension: a later entry for a key replaces an earlier one.\<close>

definition py_dict :: "('k \<times> 'v) list \<Rightarrow> 'k \<Rightarrow> 'v option" where
  "py_dict kvs = map_of (rev kvs)"

text \<open>\<^verbatim>\<open>d[k]\<close>.\<close>

definition py_getitem :: "('k \<Rightarrow> 'v option) \<Rightarrow> 'k \<Rightarrow> error + 'v" where
  "py_getitem d k = (case d k of None \<Rightarrow> Inl KeyError | Some v \<Rightarrow> Inr v)"

text \<open>Sequencing of statements that may raise: the first exception is the result.\<close>

definition ebind :: "error + 'a \<Rightarrow> ('a \<Rightarrow> error + 'b) \<Rightarrow> error + 'b" where
  "ebind r f = (case r of Inl e \<Rightarrow> Inl e | Inr v \<Rightarrow> f v)"

section \<open>Element trees\<close>

text \<open>
  An \<^verbatim>\<open>xml.etree.ElementTree.Element\<close>: tag in the form \<^verbatim>\<open>{uri}local\<close>, the
  attribute dict, the text and the children in document order.
\<close>

datatype elem =
  Elem (tag: string) (attrib: "(string \<times> string) list") (etext: "string option")
       (children: "elem list")

text \<open>
  \<^verbatim>\<open>NameSpaceSolver.solve\<close>: split at the last colon, look the prefix up.
\<close>

definition solve :: "(string \<times> string) list \<Rightarrow> string \<Rightarrow> error + string" where
  "solve namespace_dict full_tag =
     (case py_rpartition CHR '':'' full_tag of
        (prefix, sep, tg) \<Rightarrow>
          ebind (py_getitem (py_dict namespace_dict) prefix)
            (\<lambda>uri. Inr (''{'' @ uri @ ''}'' @ tg)))"

text \<open>
  The translators call \<^verbatim>\<open>solve\<close> on literals only, and every prefix of those
  literals is a key of the translator's table (lemmas \<open>solve_inspire\<close> and
  \<open>solve_citygml\<close> below), so no call of theirs raises. \<open>qn\<close> is \<open>solve\<close> on that
  domain.
\<close>

definition qn :: "(string \<times> string) list \<Rightarrow> string \<Rightarrow> string" where
  "qn namespace_dict full_tag =
     (case solve namespace_dict full_tag of Inr t \<Rightarrow> t | Inl e \<Rightarrow> full_tag)"

text \<open>
  The paths this program gives to \<^verbatim>\<open>find\<close>, \<^verbatim>\<open>findall\<close> and \<^verbatim>\<open>iterfind\<close> are
  child steps separated by \<^verbatim>\<open>/\<close> after a leading \<^verbatim>\<open>.\<close>; a step
  \<^verbatim>\<open>prefix:local\<close> is resolved through the \<^verbatim>\<open>namespaces\<close> argument (split at the
  first colon). The library raises for a prefix outside the table; the program only
  uses the two prefixes of its table, and the model leaves any other step as it is.
\<close>

definition et_name :: "(string \<times> string) list \<Rightarrow> string \<Rightarrow> string" where
  "et_name ns tok =
     (case py_partition CHR '':'' tok of
        (prefix, sep, local) \<Rightarrow>
          if sep = [] then tok
          else (case py_dict ns prefix of
                  Some uri \<Rightarrow> ''{'' @ uri @ ''}'' @ local
                | None \<Rightarrow> tok))"

definition et_steps :: "(string \<times> string) list \<Rightarrow> string \<Rightarrow> string list" where
  "et_steps ns path = map (et_name ns) (filter (\<lambda>t. t \<noteq> ''.'') (py_split CHR ''/'' path))"

fun select_steps :: "string list \<Rightarrow> elem \<Rightarrow> elem list" where
  "select_steps [] e = [e]"
| "select_steps (t # ts) e =
     concat (map (select_steps ts) (filter (\<lambda>c. tag c = t) (children e)))"

definition ET_iterfind :: "(string \<times> string) list \<Rightarrow> string \<Rightarrow> elem \<Rightarrow> elem list" where
  "ET_iterfind ns path e = select_steps (et_steps ns path) e"

definition ET_findall :: "(string \<times> string) list \<Rightarrow> string \<Rightarrow> elem \<Rightarrow> elem list" where
  "ET_findall ns path e = ET_iterfind ns path e"

definition ET_find :: "(string \<times> string) list \<Rightarrow> string \<Rightarrow> elem \<Rightarrow> elem option" where
  "ET_find ns path e = (case ET_iterfind ns path e of [] \<Rightarrow> None | x # _ \<Rightarrow> Some x)"

text \<open>\<^verbatim>\<open>eT.SubElement(parent, tag)\<close> appends a child to the parent.\<close>

definition SubElement :: "elem \<Rightarrow> elem \<Rightarrow> elem" where
  "SubElement parent child =
     Elem (tag parent) (attrib parent) (etext parent) (children parent @ [child])"

section \<open>The source document: class CitiEnGov\<close>

definition namespaces :: "(string \<times> string) list" where
  "namespaces =
     [(''CitiEnGov_01_1'', ''http://maps.dedagroup.it/energy/geoserver/CitiEnGov_01_1''),
      (''gml'', ''http://www.opengis.net/gml'')]"

record Building =
  uuid :: "string option"
  feature_list :: "elem list"

record CitiEnGov =
  root :: elem
  feature_members :: "elem list"
  building_UUIDs :: "string option list"
  UUID_index :: nat
  UUID :: "string option"
  building :: Building

definition uuid_path :: string where
  "uuid_path = ''./gml:featureMember/CitiEnGov_01_1:GML_BUILDINGS_CEG/CitiEnGov_01_1:UUID''"

definition feature_uuid_path :: string where
  "feature_uuid_path = ''./CitiEnGov_01_1:GML_BUILDINGS_CEG/CitiEnGov_01_1:UUID''"

text \<open>
  Lines 53-54: the texts of all UUID elements below the feature members. A feature
  member without such an element contributes nothing to the list.
\<close>

definition list_of_uuids :: "elem \<Rightarrow> string option list" where
  "list_of_uuids rt = map etext (ET_iterfind namespaces uuid_path rt)"

text \<open>
  Line 55, \<^verbatim>\<open>list(set(list_of_uuids))\<close>: the order in which a Python set is listed is
  not fixed by the language, so the listing is a parameter \<open>list_set\<close> of the model;
  \<open>set_listing\<close> says what every such listing satisfies.
\<close>

definition set_listing :: "('a list \<Rightarrow> 'a list) \<Rightarrow> bool" where
  "set_listing list_set = (\<forall>xs. distinct (list_set xs) \<and> set (list_set xs) = set xs)"

definition buildingIdentifiers ::
  "(string option list \<Rightarrow> string option list) \<Rightarrow> elem \<Rightarrow> string option list" where
  "buildingIdentifiers list_set rt = list_set (list_of_uuids rt)"

text \<open>
  \<^verbatim>\<open>feature.find(...).text\<close> in \<^verbatim>\<open>get_building\<close>: \<^verbatim>\<open>find\<close> gives the first UUID
  element of the feature member, and \<^verbatim>\<open>None.text\<close> raises.
\<close>

definition feature_uuid :: "elem \<Rightarrow> error + string option" where
  "feature_uuid feature =
     (case ET_find namespaces feature_uuid_path feature of
        None \<Rightarrow> Inl AttributeError
      | Some u \<Rightarrow> Inr (etext u))"

text \<open>The list comprehension of \<^verbatim>\<open>get_building\<close>; its condition is evaluated for every feature member.\<close>

fun select_features :: "elem list \<Rightarrow> string option \<Rightarrow> error + elem list" where
  "select_features [] u = Inr []"
| "select_features (feature # fs) u =
     (case feature_uuid feature of
        Inl e \<Rightarrow> Inl e
      | Inr t \<Rightarrow>
          (case select_features fs u of
             Inl e \<Rightarrow> Inl e
           | Inr r \<Rightarrow> Inr (if t = u then feature # r else r)))"

definition get_building :: "elem list \<Rightarrow> string option \<Rightarrow> error + Building" where
  "get_building fm u =
     (case select_features fm u of
        Inl e \<Rightarrow> Inl e
      | Inr fl \<Rightarrow> Inr \<lparr>uuid = u, feature_list = fl\<rparr>)"

text \<open>
  \<^verbatim>\<open>CitiEnGov.__init__\<close> from line 43 on, given the root the parser returned.
  \<^verbatim>\<open>self.building_UUIDs[0]\<close> raises \<^verbatim>\<open>IndexError\<close> on the empty list.
\<close>

definition CitiEnGov_init ::
  "(string option list \<Rightarrow> string option list) \<Rightarrow> elem \<Rightarrow> error + CitiEnGov" where
  "CitiEnGov_init list_set rt =
     (let fm = ET_findall namespaces ''./gml:featureMember'' rt;
          ids = buildingIdentifiers list_set rt
      in case ids of
           [] \<Rightarrow> Inl IndexError
         | u # _ \<Rightarrow>
             (case get_building fm u of
                Inl e \<Rightarrow> Inl e
              | Inr b \<Rightarrow>
                  Inr \<lparr>root = rt, feature_members = fm, building_UUIDs = ids,
                       UUID_index = 0, UUID = u, building = b\<rparr>))"

text \<open>
  \<^verbatim>\<open>__next__\<close>: the result and the object afterwards. The \<^verbatim>\<open>finally\<close> clause
  advances the cursor on every path; \<^verbatim>\<open>self.UUID\<close> is assigned before
  \<^verbatim>\<open>get_building\<close> runs.
\<close>

definition CitiEnGov_next :: "CitiEnGov \<Rightarrow> (error + Building) \<times> CitiEnGov" where
  "CitiEnGov_next c =
     (if UUID_index c < length (building_UUIDs c) then
        (let u = building_UUIDs c ! UUID_index c
         in case get_building (feature_members c) u of
              Inl e \<Rightarrow> (Inl e, c\<lparr>UUID := u, UUID_index := UUID_index c + 1\<rparr>)
            | Inr b \<Rightarrow> (Inr b, c\<lparr>UUID := u, building := b, UUID_index := UUID_index c + 1\<rparr>))
      else (Inl StopIteration, c\<lparr>UUID_index := UUID_index c + 1\<rparr>))"

text \<open>
  \<^verbatim>\<open>for bu in citi_en_gov: body\<close>, with the loop body a function of what it has built
  so far and the building; \<^verbatim>\<open>StopIteration\<close> ends the loop, any other exception
  leaves it.
\<close>

function for_each ::
  "CitiEnGov \<Rightarrow> ('a \<Rightarrow> Building \<Rightarrow> error + 'a) \<Rightarrow> 'a \<Rightarrow> error + 'a" where
  "for_each c body acc =
     (case fst (CitiEnGov_next c) of
        Inl e \<Rightarrow> if e = StopIteration then Inr acc else Inl e
      | Inr bu \<Rightarrow>
          (case body acc bu of
             Inl e \<Rightarrow> Inl e
           | Inr acc' \<Rightarrow> for_each (snd (CitiEnGov_next c)) body acc'))"
  by pat_completeness auto
termination
  by (relation "measure (\<lambda>(c, body, acc). length (building_UUIDs c) - UUID_index c)")
     (auto simp: CitiEnGov_next_def Let_def split: if_splits sum.splits)

declare for_each.simps [simp del]

text \<open>The buildings the iteration yields, in order.\<close>

definition buildings :: "CitiEnGov \<Rightarrow> error + Building list" where
  "buildings c = for_each c (\<lambda>acc bu. Inr (acc @ [bu])) []"

section \<open>class Building\<close>

definition Building_path :: "string \<Rightarrow> string" where
  "Building_path attribute = ''./CitiEnGov_01_1:GML_BUILDINGS_CEG/CitiEnGov_01_1:'' @ attribute"

text \<open>\<^verbatim>\<open>Building.find(attribute, _all=True)\<close>.\<close>

definition Building_find_all :: "Building \<Rightarrow> string \<Rightarrow> elem list" where
  "Building_find_all bu attribute =
     List.map_filter (ET_find namespaces (Building_path attribute)) (feature_list bu)"

text \<open>\<^verbatim>\<open>Building.find(attribute)\<close>: the first feature member that has the attribute decides.\<close>

fun first_attrib :: "string \<Rightarrow> elem list \<Rightarrow> elem option" where
  "first_attrib path [] = None"
| "first_attrib path (feature # fs) =
     (case ET_find namespaces path feature of
        Some a \<Rightarrow> Some a
      | None \<Rightarrow> first_attrib path fs)"

definition Building_find :: "Building \<Rightarrow> string \<Rightarrow> elem option" where
  "Building_find bu attribute = first_attrib (Building_path attribute) (feature_list bu)"

text \<open>
  \<^verbatim>\<open>bu.find(a).text\<close> and \<^verbatim>\<open>bu.find(a).text.lower()\<close>: a missing element raises
  \<^verbatim>\<open>AttributeError\<close> at \<^verbatim>\<open>.text\<close>, a missing text raises it at \<^verbatim>\<open>.lower()\<close>.
\<close>

definition find_text :: "Building \<Rightarrow> string \<Rightarrow> error + string option" where
  "find_text bu attribute =
     (case Building_find bu attribute of
        None \<Rightarrow> Inl AttributeError
      | Some e \<Rightarrow> Inr (etext e))"

definition text_lower :: "string option \<Rightarrow> error + string" where
  "text_lower t = (case t of None \<Rightarrow> Inl AttributeError | Some s \<Rightarrow> Inr (py_lower s))"

definition find_text_lower :: "Building \<Rightarrow> string \<Rightarrow> error + string" where
  "find_text_lower bu attribute = ebind (find_text bu attribute) text_lower"

text \<open>A comprehension or loop whose body may raise stops at the first exception.\<close>

fun emap :: "('a \<Rightarrow> error + 'b) \<Rightarrow> 'a list \<Rightarrow> error + 'b list" where
  "emap f [] = Inr []"
| "emap f (x # xs) = ebind (f x) (\<lambda>y. ebind (emap f xs) (\<lambda>ys. Inr (y # ys)))"

text \<open>
  The body of each translator is a sequence of blocks, one per comment heading of the
  source; a block returns the elements it appends to the building element, or the
  exception it raises. The blocks run in order.
\<close>

fun run_blocks :: "('a \<Rightarrow> error + elem list) list \<Rightarrow> 'a \<Rightarrow> error + elem list" where
  "run_blocks [] bu = Inr []"
| "run_blocks (s # ss) bu =
     ebind (s bu) (\<lambda>es. ebind (run_blocks ss bu) (\<lambda>rest. Inr (es @ rest)))"

section \<open>class Inspire\<close>

definition inspire_ns :: "(string \<times> string) list" where
  "inspire_ns =
     [(''xmlns'', ''http://www.opengis.net/wfs''),
      (''wfs'', ''http://www.opengis.net/wfs/2.0''),
      (''xsi'', ''http://www.w3.org/2001/XMLSchema-instance''),
      (''xlink'', ''http://www.w3.org/1999/xlink''),
      (''gml'', ''http://www.opengis.net/gml/3.2''),
      (''gmd'', ''http://www.isotc211.org/2005/gmd''),
      (''base'', ''http://inspire.ec.europa.eu/schemas/base/3.3''),
      (''bu-base'', ''http://inspire.ec.europa.eu/schemas/bu-base/4.0''),
      (''bu-core2d'', ''http://inspire.ec.europa.eu/schemas/bu-core2d/4.0'')]"

abbreviation iq :: "string \<Rightarrow> string" where
  "iq \<equiv> qn inspire_ns"

definition condition_of_construction_dict :: "string \<Rightarrow> string option" where
  "condition_of_construction_dict = py_dict
     [(''functional'',
       ''http://inspire.ec.europa.eu/codelist/ConditionOfConstructionValue/functional'')]"

definition elevation_reference_dict :: "string \<Rightarrow> string option" where
  "elevation_reference_dict = py_dict
     [(''generalroof'',
       ''http://inspire.ec.europa.eu/codelist/ElevationReferenceValue/generalRoof'')]"

definition height_status_dict :: "string \<Rightarrow> string option" where
  "height_status_dict = py_dict
     [(''stimata'', ''http://inspire.ec.europa.eu/codelist/HeightStatusValue/estimated'')]"

definition building_nature_dict :: "string \<Rightarrow> string option" where
  "building_nature_dict = py_dict []"

definition current_use_dict :: "string \<Rightarrow> string option" where
  "current_use_dict = py_dict
     [(''ausiliario'', ''http://inspire.ec.europa.eu/codelist/CurrentUseValue/ancillary''),
      (''negozio'', ''http://inspire.ec.europa.eu/codelist/CurrentUseValue/trade''),
      (''residenziale'', ''http://inspire.ec.europa.eu/codelist/CurrentUseValue/residential''),
      (''magazzino'', ''http://inspire.ec.europa.eu/codelist/CurrentUseValue/trade''),
      (''laboratorio'', ''http://inspire.ec.europa.eu/codelist/CurrentUseValue/industrial''),
      (''ausiliario'', ''http://inspire.ec.europa.eu/codelist/CurrentUseValue/ancillary'')]"

text \<open>
  The root element \<^verbatim>\<open>Inspire.__init__\<close> creates; \<open>ts\<close> is the formatted
  \<^verbatim>\<open>datetime.utcnow()\<close>.
\<close>

definition Inspire_init :: "string \<Rightarrow> elem" where
  "Inspire_init ts =
     Elem (iq ''wfs:FeatureCollection'')
       [(''xmlns'', ''http://www.opengis.net/wfs''),
        (''numberMatched'', ''unknown''),
        (''numberReturned'', ''1000''),
        (''timeStamp'', ts),
        (iq ''xsi:schemaLocation'',
         ''http://www.opengis.net/wfs/2.0 '' @
         ''http://schemas.opengis.net/wfs/2.0/wfs.xsd '' @
         ''http://www.opengis.net/gml/3.2 '' @
         ''http://schemas.opengis.net/gml/3.2.1/gml.xsd '' @
         ''http://inspire.ec.europa.eu/schemas/bu-core2d/4.0 '' @
         ''https://inspire.ec.europa.eu/schemas/bu-core2d/4.0/BuildingsCore2D.xsd'')]
       None []"

text \<open>\<^verbatim>\<open>'{y}-01-01T00:00:00'.format(y=year)\<close>.\<close>

definition inspire_timestamp :: "string option \<Rightarrow> string" where
  "inspire_timestamp y = py_format y @ ''-01-01T00:00:00''"

text \<open>LIFESPAN_BEGINNING (lines 207-210).\<close>

definition inspire_lifespan :: "Building \<Rightarrow> error + elem list" where
  "inspire_lifespan bu =
     ebind (find_text bu ''LIFESPAN_BEGINNING'') (\<lambda>l_year.
       Inr [Elem (iq ''bu-base:beginLifespanVersion'') [] (Some (inspire_timestamp l_year)) []])"

text \<open>
  CONDITION_OF_CONSTRUCTION (lines 212-217): the element is created before the
  presence test.
\<close>

definition inspire_condition :: "Building \<Rightarrow> error + elem list" where
  "inspire_condition bu =
     (if Building_find bu ''CONDITION'' \<noteq> None then
        ebind (find_text_lower bu ''CONDITION'') (\<lambda>cond.
        ebind (py_getitem condition_of_construction_dict cond) (\<lambda>uri.
          Inr [Elem (iq ''bu-base:conditionOfConstruction'') [(iq ''xlink:href'', uri)] None []]))
      else Inr [Elem (iq ''bu-base:conditionOfConstruction'') [] None []])"

text \<open>DATE_OF_CONSTRUCTION (lines 219-229).\<close>

definition inspire_date_of_construction :: "Building \<Rightarrow> error + elem list" where
  "inspire_date_of_construction bu =
     (if Building_find bu ''DATE_C_BEGINNING'' \<noteq> None then
        ebind (find_text bu ''DATE_C_BEGINNING'') (\<lambda>c_year_b.
        ebind (if Building_find bu ''DATE_C_END'' \<noteq> None then
                 ebind (find_text bu ''DATE_C_BEGINNING'') (\<lambda>c_year_e.
                   Inr [Elem (iq ''bu-base:end'') [] (Some (inspire_timestamp c_year_e)) []])
               else Inr []) (\<lambda>ends.
          Inr [Elem (iq ''bu-base:dateOfConstruction'') [] None
                 [Elem (iq ''bu-base:DateOfEvent'') [] None
                    (Elem (iq ''bu-base:beginning'') [] (Some (inspire_timestamp c_year_b)) []
                     # ends)]]))
      else Inr [])"

text \<open>DATE_OF_RENOVATION (lines 231-241).\<close>

definition inspire_date_of_renovation :: "Building \<Rightarrow> error + elem list" where
  "inspire_date_of_renovation bu =
     (if Building_find bu ''DATE_R_BEGINNING'' \<noteq> None then
        ebind (find_text bu ''DATE_R_BEGINNING'') (\<lambda>r_year_b.
        ebind (if Building_find bu ''DATE_R_END'' \<noteq> None then
                 ebind (find_text bu ''DATE_R_BEGINNING'') (\<lambda>r_year_e.
                   Inr [Elem (iq ''bu-base:end'') [] (Some (inspire_timestamp r_year_e)) []])
               else Inr []) (\<lambda>ends.
          Inr [Elem (iq ''bu-base:dateOfConstruction'') [] None
                 [Elem (iq ''bu-base:DateOfEvent'') [] None
                    (Elem (iq ''bu-base:beginning'') [] (Some (inspire_timestamp r_year_b)) []
                     # ends)]]))
      else Inr [])"

text \<open>EXTERNAL_REFERENCE (lines 243-253).\<close>

definition inspire_external_reference :: "Building \<Rightarrow> error + elem list" where
  "inspire_external_reference bu =
     (if Building_find bu ''EXT_REF_REFERENCE'' \<noteq> None then
        ebind (find_text bu ''EXT_REF_IDENTIFIER'') (\<lambda>ident.
        ebind (find_text bu ''EXT_REF_INF_SYS_NAME'') (\<lambda>sys_name.
        ebind (find_text bu ''EXT_REF_REFERENCE'') (\<lambda>reference.
          Inr [Elem (iq ''bu-base:externalReference'') [] None
                 [Elem (iq ''bu-base:ExternalReference'') [] None
                    [Elem (iq ''bu-base:informationSystem'') [] ident [],
                     Elem (iq ''bu-base:informationSystemName'') [] None
                       [Elem (iq ''gmd:LocalisedCharacterString'') [] sys_name []],
                     Elem (iq ''bu-base:reference'') [] reference []]]])))
      else Inr [])"

text \<open>HEIGHT_ABOVE_GROUND (lines 255-272).\<close>

definition inspire_height_above_ground :: "Building \<Rightarrow> error + elem list" where
  "inspire_height_above_ground bu =
     (if Building_find bu ''HEIGHT_HEIGHT_VAL'' \<noteq> None then
        ebind (if Building_find bu ''HEIGHT_HEIGHT_REF'' \<noteq> None
               then find_text_lower bu ''HEIGHT_HEIGHT_REF''
               else Inr ''generalroof'') (\<lambda>height_ref.
        ebind (py_getitem elevation_reference_dict height_ref) (\<lambda>ref_uri.
        ebind (find_text_lower bu ''HEIGHT_HEIGHT_STAT'') (\<lambda>height_stat.
        ebind (py_getitem height_status_dict height_stat) (\<lambda>stat_uri.
        ebind (find_text bu ''HEIGHT_HEIGHT_VAL'') (\<lambda>val.
          Inr [Elem (iq ''bu-base:heightAboveGround'') [] None
                 [Elem (iq ''bu-base:HeightAboveGround'') [] None
                    [Elem (iq ''bu-base:heightReference'') [(iq ''xlink:href'', ref_uri)] None [],
                     Elem (iq ''bu-base:lowReference'') [] None [],
                     Elem (iq ''bu-base:status'') [(iq ''xlink:href'', stat_uri)] None [],
                     Elem (iq ''bu-base:value'') [(''uom'', ''m'')] val []]]])))))
      else Inr [])"

text \<open>ID (lines 274-280).\<close>

definition inspire_id :: "Building \<Rightarrow> error + elem list" where
  "inspire_id bu =
     ebind (find_text bu ''IDENTIFIER_ID_LOC'') (\<lambda>loc.
     ebind (find_text bu ''IDENTIFIER_ID_NAME'') (\<lambda>name.
       Inr [Elem (iq ''bu-base:inspireId'') [] None
              [Elem (iq ''base:Identifier'') [] None
                 [Elem (iq ''base:localId'') [] loc [],
                  Elem (iq ''base:namespace'') [] name []]]]))"

text \<open>BUILDING_NATURE (lines 282-286).\<close>

definition inspire_building_nature :: "Building \<Rightarrow> error + elem list" where
  "inspire_building_nature bu =
     (if Building_find bu ''BUILDINGTYPE'' \<noteq> None then
        ebind (find_text_lower bu ''BUILDINGTYPE'') (\<lambda>building_nat.
        ebind (py_getitem building_nature_dict building_nat) (\<lambda>uri.
          Inr [Elem (iq ''bu-base:buildingNature'') [(iq ''xlink:href'', uri)] None []]))
      else Inr [])"

text \<open>CURRENT_USE (lines 288-301): the body of the loop over the uses, then the block.\<close>

definition inspire_use_block :: "string \<Rightarrow> error + elem" where
  "inspire_use_block use =
     (case py_partition CHR ''('' use of
        (curr_use, sep, percent) \<Rightarrow>
          ebind (py_getitem current_use_dict curr_use) (\<lambda>uri.
            Inr (Elem (iq ''bu-base:currentUse'') [] None
                   [Elem (iq ''bu-base:CurrentUse'') [] None
                      [Elem (iq ''bu-base:currentUse'') [(iq ''xlink:href'', uri)] None [],
                       Elem (iq ''bu-base:percentage'') []
                         (Some (py_strip_chars ''%)'' percent)) []]])))"

definition inspire_current_use :: "Building \<Rightarrow> error + elem list" where
  "inspire_current_use bu =
     (if Building_find bu ''USE_M'' \<noteq> None then
        ebind (find_text bu ''USE_M'') (\<lambda>t.
          case t of
            None \<Rightarrow> Inl AttributeError
          | Some s \<Rightarrow> emap inspire_use_block (py_split CHR '','' s))
      else Inr [])"

text \<open>NUMBER_OF_BUILDING_UNITS and NUMBER_OF_FLOORS_ABOVE_GROUND (lines 303-313).\<close>

definition inspire_units :: "Building \<Rightarrow> error + elem list" where
  "inspire_units bu =
     (if Building_find bu ''UNITS'' \<noteq> None then
        ebind (find_text bu ''UNITS'') (\<lambda>t.
          Inr [Elem (iq ''bu-base:numberOfBuildingUnits'') [] t []])
      else Inr [])"

definition inspire_floors :: "Building \<Rightarrow> error + elem list" where
  "inspire_floors bu =
     (if Building_find bu ''FLOORS'' \<noteq> None then
        ebind (find_text bu ''FLOORS'') (\<lambda>t.
          Inr [Elem (iq ''bu-base:numberOfFloorsAboveGround'') [] t []])
      else Inr [])"

text \<open>GEOMETRY (lines 315-334): \<^verbatim>\<open>co.attrib\<close> raises when the coordinates are not found.\<close>

definition coordinates_attribute :: string where
  "coordinates_attribute =
     ''GEOMETRY2D/gml:Polygon/gml:outerBoundaryIs/gml:LinearRing/gml:coordinates''"

definition inspire_geometry :: "Building \<Rightarrow> error + elem list" where
  "inspire_geometry bu =
     (case Building_find bu coordinates_attribute of
        None \<Rightarrow> Inl AttributeError
      | Some co \<Rightarrow>
          Inr [Elem (iq ''bu-core2d:geometry2D'') [] None
                 [Elem (iq ''bu-base:BuildingGeometry2D'') [] None
                    [Elem (iq ''bu-base:geometry'') [] None
                       [Elem (iq ''gml:Polygon'') [] None
                          [Elem (iq ''gml:exterior'') [] None
                             [Elem (iq ''gml:LinearRing'') [] None
                                [Elem (iq ''gml:coordinates'') (attrib co) (etext co) []]]]],
                     Elem (iq ''bu-base:referenceGeometry'') [] (Some ''false'') [],
                     Elem (iq ''bu-base:horizontalGeometryReference'') [] None [],
                     Elem (iq ''bu-base:horizontalGeometryEstimatedAccuracy'')
                       [(''uom'', ''!'')] (Some ''0'') []]]])"

text \<open>The building element of one record and the member that holds it (lines 200-204).\<close>

definition inspire_blocks :: "(Building \<Rightarrow> error + elem list) list" where
  "inspire_blocks =
     [inspire_lifespan, inspire_condition, inspire_date_of_construction,
      inspire_date_of_renovation, inspire_external_reference, inspire_height_above_ground,
      inspire_id, inspire_building_nature, inspire_current_use, inspire_units,
      inspire_floors, inspire_geometry]"

definition inspire_building :: "Building \<Rightarrow> error + elem" where
  "inspire_building bu =
     ebind (run_blocks inspire_blocks bu) (\<lambda>kids.
       Inr (Elem (iq ''bu-core2d:Building'') [] None kids))"

definition inspire_member :: "elem \<Rightarrow> Building \<Rightarrow> error + elem" where
  "inspire_member rt bu =
     ebind (inspire_building bu) (\<lambda>b.
       Inr (SubElement rt (Elem (iq ''wfs:member'') [] None [b])))"

text \<open>\<^verbatim>\<open>Inspire.translate\<close>: the root after the loop over the source document.\<close>

definition Inspire_translate :: "elem \<Rightarrow> CitiEnGov \<Rightarrow> error + elem" where
  "Inspire_translate rt citi_en_gov = for_each citi_en_gov inspire_member rt"

section \<open>class CityGML\<close>

definition city_gml_ns :: "(string \<times> string) list" where
  "city_gml_ns =
     [(''wfs'', ''http://www.opengis.net/wfs''),
      (''xsi'', ''http://www.w3.org/2001/XMLSchema-instance''),
      (''xlink'', ''http://www.w3.org/1999/xlink''),
      (''gml'', ''http://www.opengis.net/gml''),
      (''core'', ''http://www.opengis.net/citygml/2.0''),
      (''energy'', ''http://www.sig3d.org/citygml/2.0/energy/1.0''),
      (''bldg'', ''http://www.opengis.net/citygml/building/2.0'')]"

abbreviation cq :: "string \<Rightarrow> string" where
  "cq \<equiv> qn city_gml_ns"

definition usage_dict :: "string \<Rightarrow> string option" where
  "usage_dict = py_dict
     [(''school'', ''2070''), (''residential'', ''1000''), (''residenziale'', ''1000''),
      (''commercio'', ''1150''), (''ausiliario'', ''2700'')]"

definition roof_type_dict :: "string \<Rightarrow> string option" where
  "roof_type_dict = py_dict []"

definition height_reference_dict :: "string \<Rightarrow> string option" where
  "height_reference_dict = py_dict
     [(''bottomOfConstruction'', ''bottomOfConstruction''),
      (''entrancePoint'', ''entrancePoint''),
      (''generalEave'', ''generalEave''),
      (''generalroof'', ''generalRoof''),
      (''generalRoofEdge'', ''generalRoofEdge''),
      (''highestEave'', ''highestEave''),
      (''highestPoint'', ''highestPoint''),
      (''highestRoofEdge'', ''highestRoofEdge''),
      (''lowestEave'', ''lowestEave''),
      (''lowestFloorAboveGround'', ''lowestFloorAboveGround''),
      (''lowestRoofEdge'', ''lowestRoofEdge''),
      (''topOfConstruction'', ''topOfConstruction''),
      (''topThermalBoundary'', ''topThermalBoundary''),
      (''bottomThermalBoundary'', ''topThermalBoundary'')]"

definition building_type_dict :: "string \<Rightarrow> string option" where
  "building_type_dict = py_dict
     [(''ApartmentBlock'', ''ApartmentBlock''),
      (''MultiFamilyHouse'', ''MultiFamilyHouse''),
      (''RowHouse'', ''RowHouse''),
      (''SingleFamilyHouse'', ''SingleFamilyHouse'')]"

definition CityGML_init :: elem where
  "CityGML_init =
     Elem (cq ''core:CityModel'')
       [(cq ''xsi:schemaLocation'',
         ''http://www.sig3d.org/citygml/2.0/energy/1.0 '' @
         ''http://www.citygmlwiki.org/images/a/ac/EnergyADE.xsd'')]
       None []"

text \<open>\<^verbatim>\<open>'{y}-01-01'.format(y=year)\<close>.\<close>

definition citygml_date :: "string option \<Rightarrow> string" where
  "citygml_date y = py_format y @ ''-01-01''"

text \<open>NAME, LIFESPAN_BEGINNING, LIFESPAN_END (lines 430-445).\<close>

definition citygml_name :: "Building \<Rightarrow> error + elem list" where
  "citygml_name bu =
     (if Building_find bu ''NAME'' \<noteq> None then
        ebind (find_text bu ''NAME'') (\<lambda>t. Inr [Elem (cq ''gml:name'') [] t []])
      else Inr [])"

definition citygml_creation_date :: "Building \<Rightarrow> error + elem list" where
  "citygml_creation_date bu =
     (if Building_find bu ''LIFESPAN_BEGINNING'' \<noteq> None then
        ebind (find_text bu ''LIFESPAN_BEGINNING'') (\<lambda>year.
          Inr [Elem (cq ''core:creationDate'') [] (Some (citygml_date year)) []])
      else Inr [])"

definition citygml_termination_date :: "Building \<Rightarrow> error + elem list" where
  "citygml_termination_date bu =
     (if Building_find bu ''LIFESPAN_END'' \<noteq> None then
        ebind (find_text bu ''LIFESPAN_END'') (\<lambda>year.
          Inr [Elem (cq ''core:terminationDate'') [] (Some (citygml_date year)) []])
      else Inr [])"

text \<open>EXTERNAL_REFERENCE and ID (lines 447-463).\<close>

definition citygml_external_reference :: "Building \<Rightarrow> error + elem list" where
  "citygml_external_reference bu =
     (if Building_find bu ''EXT_REF_REFERENCE'' \<noteq> None then
        ebind (find_text bu ''EXT_REF_IDENTIFIER'') (\<lambda>ident.
        ebind (find_text bu ''EXT_REF_REFERENCE'') (\<lambda>reference.
          Inr [Elem (cq ''core:externalReference'') [] None
                 [Elem (cq ''core:informationSystem'') [] ident [],
                  Elem (cq ''core:externalObject'') [] None
                    [Elem (cq ''core:name'') [] reference []]]]))
      else Inr [])"

definition citygml_id :: "Building \<Rightarrow> error + elem list" where
  "citygml_id bu =
     (if Building_find bu ''IDENTIFIER_ID_LOC'' \<noteq> None then
        ebind (find_text bu ''IDENTIFIER_ID_NAME'') (\<lambda>name.
        ebind (find_text bu ''IDENTIFIER_ID_LOC'') (\<lambda>loc.
          Inr [Elem (cq ''core:externalReference'') [] None
                 [Elem (cq ''core:informationSystem'') [] name [],
                  Elem (cq ''core:externalObject'') [] None
                    [Elem (cq ''core:name'') [] loc []]]]))
      else Inr [])"

text \<open>
  ENERGY_DEMAND, \<^verbatim>\<open>make_demand\<close> (lines 466-531). \<open>demand_inputs\<close> is the
  \<^verbatim>\<open>if/elif/else\<close> on the carrier (lines 469-490): the carrier name written out, the
  year texts, the unit and the value texts.
\<close>

definition demand_inputs ::
  "Building \<Rightarrow> string \<Rightarrow> error + (string \<times> string option list \<times> string \<times> string option list)" where
  "demand_inputs bu energy_carrier =
     (if energy_carrier = ''electricity'' then
        ebind (find_text_lower bu ''ENERGYAMOUNT_E_SOURCE_E'') (\<lambda>energy_source.
          if energy_source \<noteq> ''electricity'' then Inl (UnboundLocalError ESourceExpected)
          else
            let years = map etext (Building_find_all bu ''ENERGYAMOUNT_E_YEAR_ONLY_E'')
            in ebind (find_text_lower bu ''CONSUMONORM_UOM_E'') (\<lambda>uom.
                 let energy_values = map etext (Building_find_all bu ''CONSUMONORM_VALORE_E'')
                 in Inr (''Electricity'', years, uom, energy_values)))
      else if energy_carrier = ''thermal'' then
        ebind (find_text_lower bu ''ENERGYAMOUNT_E_SOURCE_T'') (\<lambda>energy_source.
          if energy_source \<noteq> ''thermal'' then Inl (UnboundLocalError ESourceExpected)
          else
            let years = map etext (Building_find_all bu ''ENERGYAMOUNT_E_YEAR_ONLY_T'')
            in ebind (find_text_lower bu ''CONSUMONORM_UOM_T'') (\<lambda>uom.
                 let energy_values = map etext (Building_find_all bu ''CONSUMONORM_VALORE_T'')
                 in Inr (''HotWater'', years, uom, energy_values)))
      else Inl KeyError)"

text \<open>
  \<^verbatim>\<open>year_values = {y: v for y, v in zip(years, energy_values)}\<close> and one term of the
  join, \<^verbatim>\<open>'{v} '.format(v=year_values[y])\<close>.
\<close>

definition year_values ::
  "string option list \<Rightarrow> string option list \<Rightarrow> string option \<Rightarrow> string option option" where
  "year_values years energy_values = py_dict (zip years energy_values)"

definition value_term ::
  "string option list \<Rightarrow> string option list \<Rightarrow> string option \<Rightarrow> error + string" where
  "value_term years energy_values y =
     ebind (py_getitem (year_values years energy_values) y) (\<lambda>v. Inr (py_format v @ '' ''))"

text \<open>
  The element \<^verbatim>\<open>make_demand\<close> appends (lines 492-531), given the texts it puts in:
  the carrier name, the begin and end positions, the number of years, the unit and
  the values text.
\<close>

definition energy_demand ::
  "string \<Rightarrow> string option \<Rightarrow> string option \<Rightarrow> string \<Rightarrow> string \<Rightarrow> string \<Rightarrow> elem" where
  "energy_demand energy_carrier_t begin_pos end_pos time_interval uom values_text =
     Elem (cq ''energy:demands'') [] None
       [Elem (cq ''energy:EnergyDemand'') [] None
          [Elem (cq ''energy:energyAmount'') [] None
             [Elem (cq ''energy:RegularTimeSeries'') [] None
                [Elem (cq ''energy:variableProperties'') [] None
                   [Elem (cq ''energy:TimeValuesProperties'') [] None
                      [Elem (cq ''energy:acquisitionMethod'') [] (Some ''measurement'') [],
                       Elem (cq ''energy:interpolationType'') []
                         (Some ''instantaneousTotal'') []]],
                 Elem (cq ''energy:temporalExtent'') [] None
                   [Elem (cq ''gml:TimePeriod'') [] None
                      [Elem (cq ''gml:beginPosition'') [] begin_pos [],
                       Elem (cq ''gml:endPosition'') [] end_pos []]],
                 Elem (cq ''energy:timeInterval'') [(''unit'', ''year'')]
                   (Some time_interval) [],
                 Elem (cq ''energy:values'') [(''uom'', uom)] (Some values_text) []]],
           Elem (cq ''energy:endUse'') [] (Some ''otherOrCombination'') [],
           Elem (cq ''energy:energyCarrierType'')
             [(''codeSpace'',
               ''https://www.sig3d.org/codelists/citygml/2.0/energy/0.6.0/energy_EnergyCarrierType.xml'')]
             (Some energy_carrier_t) []]]"

text \<open>
  The statements of lines 507-522 that may raise, in their order:
  \<^verbatim>\<open>sorted(years)[0]\<close> raises \<^verbatim>\<open>IndexError\<close> on the empty list; the check of
  line 515 converts the last and the first sorted year with \<^verbatim>\<open>int\<close>; line 522 looks
  every sorted year up in \<^verbatim>\<open>year_values\<close>, joins the terms and strips the result.
\<close>

definition demand_element ::
  "string \<Rightarrow> string option list \<Rightarrow> string \<Rightarrow> string option list \<Rightarrow> error + elem list" where
  "demand_element energy_carrier_t years uom energy_values =
     ebind (py_sorted years) (\<lambda>sorted_years.
       if sorted_years = [] then Inl IndexError
       else
         ebind (py_int (last sorted_years)) (\<lambda>last_year.
         ebind (py_int (hd sorted_years)) (\<lambda>first_year.
           if int (length years) \<noteq> last_year - first_year + 1
           then Inl (UnboundLocalError YearsConsecutive)
           else
             ebind (emap (value_term years energy_values) sorted_years) (\<lambda>terms.
               Inr [energy_demand energy_carrier_t (hd sorted_years) (last sorted_years)
                      (py_str_nat (length years)) uom (py_strip (concat terms))]))))"

definition make_demand :: "Building \<Rightarrow> string \<Rightarrow> error + elem list" where
  "make_demand bu energy_carrier =
     ebind (demand_inputs bu energy_carrier)
       (\<lambda>(energy_carrier_t, years, uom, energy_values).
          demand_element energy_carrier_t years uom energy_values)"

text \<open>
  Lines 533-537. \<^verbatim>\<open>find(..., _all=True)\<close> never holds \<^verbatim>\<open>None\<close>, so
  \<^verbatim>\<open>not all(i is None for i in ...)\<close> says that the list is not empty.
\<close>

definition citygml_demand_electricity :: "Building \<Rightarrow> error + elem list" where
  "citygml_demand_electricity bu =
     (if Building_find_all bu ''CONSUMONORM_VALORE_E'' \<noteq> []
      then make_demand bu ''electricity'' else Inr [])"

definition citygml_demand_thermal :: "Building \<Rightarrow> error + elem list" where
  "citygml_demand_thermal bu =
     (if Building_find_all bu ''CONSUMONORM_VALORE_T'' \<noteq> []
      then make_demand bu ''thermal'' else Inr [])"

text \<open>USAGE, YEAR_OF_CONSTRUCTION, ROOF_TYPE (lines 539-560).\<close>

definition citygml_usage :: "Building \<Rightarrow> error + elem list" where
  "citygml_usage bu =
     (if Building_find bu ''USE_S'' \<noteq> None then
        ebind (find_text_lower bu ''USE_S'') (\<lambda>predominant_use.
        ebind (py_getitem usage_dict predominant_use) (\<lambda>code.
          Inr [Elem (cq ''bldg:usage'')
                 [(''codeSpace'',
                   ''https://www.sig3d.org/codelists/citygml/2.0/building/2.0/_AbstractBuilding_usage.xml'')]
                 (Some code) []]))
      else Inr [])"

definition citygml_year_of_construction :: "Building \<Rightarrow> error + elem list" where
  "citygml_year_of_construction bu =
     (if Building_find bu ''DATE_C_BEGINNING'' \<noteq> None then
        ebind (find_text bu ''DATE_C_BEGINNING'') (\<lambda>t.
          Inr [Elem (cq ''bldg:yearOfConstruction'') [] t []])
      else Inr [])"

definition citygml_roof_type :: "Building \<Rightarrow> error + elem list" where
  "citygml_roof_type bu =
     (if Building_find bu ''ROOF_TYPE'' \<noteq> None then
        ebind (find_text_lower bu ''ROOF_TYPE'') (\<lambda>roof_t.
        ebind (py_getitem roof_type_dict roof_t) (\<lambda>code.
          Inr [Elem (cq ''bldg:roofType'')
                 [(''codeSpace'',
                   ''https://www.sig3d.org/codelists/citygml/2.0/building/2.0/_AbstractBuilding_roofType.xml'')]
                 (Some code) []]))
      else Inr [])"

text \<open>
  STOREYES_ABOVE_GROUND and STORY_HEIGHTS_ABOVE_GROUND (lines 562-573);
  \<^verbatim>\<open>range(n)\<close> is empty for a negative \<^verbatim>\<open>n\<close>.
\<close>

definition citygml_storeys :: "Building \<Rightarrow> error + elem list" where
  "citygml_storeys bu =
     (if Building_find bu ''FLOORS'' \<noteq> None then
        ebind (find_text bu ''FLOORS'') (\<lambda>floors.
        ebind (if Building_find bu ''H_FLOOR'' \<noteq> None then
                 ebind (find_text bu ''H_FLOOR'') (\<lambda>hei.
                 ebind (py_int floors) (\<lambda>n.
                   Inr [Elem (cq ''bldg:storeyHeightsAboveGround'') [(''uom'', ''m'')]
                          (Some (py_rstrip_chars '',''
                                   (concat (replicate (nat n) (py_format hei @ '','')))))
                          []]))
               else Inr []) (\<lambda>heights.
          Inr (Elem (cq ''bldg:storeysAboveGround'') [] floors [] # heights)))
      else Inr [])"

text \<open>GEOMETRY (lines 575-585).\<close>

definition citygml_geometry :: "Building \<Rightarrow> error + elem list" where
  "citygml_geometry bu =
     (case Building_find bu coordinates_attribute of
        None \<Rightarrow> Inl AttributeError
      | Some co \<Rightarrow>
          Inr [Elem (cq ''bldg:lod0FootPrint'') [] None
                 [Elem (cq ''gml:MultiSurface'') [] None
                    [Elem (cq ''gml:surfaceMember'') [] None
                       [Elem (cq ''gml:Polygon'') [] None
                          [Elem (cq ''gml:outerBoundaryIs'') [] None
                             [Elem (cq ''gml:LinearRing'') [] None
                                [Elem (cq ''gml:coordinates'') (attrib co) (etext co) []]]]]]]])"

text \<open>REFURBISHMENT_MEASURE (lines 587-600): both positions carry the tag of the begin position.\<close>

definition citygml_refurbishment :: "Building \<Rightarrow> error + elem list" where
  "citygml_refurbishment bu =
     (if Building_find bu ''DATE_R_BEGINNING'' \<noteq> None then
        ebind (find_text bu ''DATE_R_BEGINNING'') (\<lambda>r_begin.
        ebind (find_text bu ''DATE_R_END'') (\<lambda>r_end.
          Inr [Elem (cq ''energy:refurbishmentMeasure'') [] None
                 [Elem (cq ''energy:RefurbishmentMeasure'') [] None
                    [Elem (cq ''energy:date'') [] None
                       [Elem (cq ''energy:DateOfEvent'') [] None
                          [Elem (cq ''energy:period'') [] None
                             [Elem (cq ''gml:TimePeriod'') [] None
                                [Elem (cq ''gml:beginPosition'') [] r_begin [],
                                 Elem (cq ''gml:beginPosition'') [] r_end []]]]],
                     Elem (cq ''energy:level'') [] (Some ''unknown'') []]]]))
      else Inr [])"

text \<open>ENERGY_PERFORMANCE_CERTIFICATION (lines 602-613).\<close>

definition citygml_certification :: "Building \<Rightarrow> error + elem list" where
  "citygml_certification bu =
     (if Building_find bu ''ENERGYPERFORMANCE_PERF_CLASS'' \<noteq> None then
        ebind (find_text bu ''ENERGYPERFORMANCE_PERF_CLASS'') (\<lambda>rating.
        ebind (find_text bu ''ENERGYPERFORMANCE_PERF_METHOD'') (\<lambda>method.
          Inr [Elem (cq ''energy:energyPerformanceCertification'') [] None
                 [Elem (cq ''energy:EnergyPerformanceCertification'') [] None
                    [Elem (cq ''energy:rating'') [] rating [],
                     Elem (cq ''energy:name'') [] method [],
                     Elem (cq ''energy:certificationId'') [] None []]]]))
      else Inr [])"

text \<open>HEIGHT_ABOVE_GROUND (lines 615-624).\<close>

definition citygml_height_above_ground :: "Building \<Rightarrow> error + elem list" where
  "citygml_height_above_ground bu =
     (if Building_find bu ''HEIGHT_HEIGHT_VAL'' \<noteq> None then
        ebind (find_text_lower bu ''HEIGHT_HEIGHT_REF'') (\<lambda>h_reference.
        ebind (py_getitem height_reference_dict h_reference) (\<lambda>ref.
        ebind (find_text bu ''HEIGHT_HEIGHT_VAL'') (\<lambda>val.
          Inr [Elem (cq ''energy:heightAboveGround'') [] None
                 [Elem (cq ''energy:HeightAboveGround'') [] None
                    [Elem (cq ''energy:heightReference'') [] (Some ref) [],
                     Elem (cq ''energy:value'') [(''uom'', ''m'')] val []]]])))
      else Inr [])"

text \<open>VOLUME and FLOOR_AREA (lines 626-653).\<close>

definition citygml_volume :: "Building \<Rightarrow> error + elem list" where
  "citygml_volume bu =
     (if Building_find bu ''VOLUME_VALUE'' \<noteq> None then
        ebind (find_text bu ''VOLUME_VALUE'') (\<lambda>t.
          Inr [Elem (cq ''energy:volume'') [] None
                 [Elem (cq ''energy:VolumeType'') [] None
                    [Elem (cq ''energy:type'') [] (Some ''grossVolume'') [],
                     Elem (cq ''energy:value'') [(''uom'', ''m3'')] t []]]])
      else Inr [])"

definition citygml_energy_volume :: "Building \<Rightarrow> error + elem list" where
  "citygml_energy_volume bu =
     (if Building_find bu ''ENERGYPERF_VOLUME_VALUE'' \<noteq> None then
        ebind (find_text bu ''ENERGYPERF_VOLUME_VALUE'') (\<lambda>t.
          Inr [Elem (cq ''energy:volume'') [] None
                 [Elem (cq ''energy:VolumeType'') [] None
                    [Elem (cq ''energy:type'') [] (Some ''energyReferenceVolume'') [],
                     Elem (cq ''energy:value'') [(''uom'', ''m3'')] t []]]])
      else Inr [])"

definition citygml_floor_area :: "Building \<Rightarrow> error + elem list" where
  "citygml_floor_area bu =
     (if Building_find bu ''SURFACE_VALUE'' \<noteq> None then
        ebind (find_text bu ''SURFACE_VALUE'') (\<lambda>t.
          Inr [Elem (cq ''energy:floorArea'') [] None
                 [Elem (cq ''energy:FloorArea'') [] None
                    [Elem (cq ''energy:type'') [] (Some ''grossFloorArea'') [],
                     Elem (cq ''energy:value'') [(''uom'', ''m2'')] t []]]])
      else Inr [])"

text \<open>BUILDING_TYPE (lines 657-664).\<close>

definition citygml_building_type :: "Building \<Rightarrow> error + elem list" where
  "citygml_building_type bu =
     (if Building_find bu ''BUILDINGTYPE'' \<noteq> None then
        ebind (find_text_lower bu ''BUILDINGTYPE'') (\<lambda>building_typ.
        ebind (py_getitem building_type_dict building_typ) (\<lambda>code.
          Inr [Elem (cq ''energy:buildingType'')
                 [(''codeSpace'',
                   ''https://www.sig3d.org/codelists/citygml/2.0/energy/0.6.0/energy_BuildingType.xml'')]
                 (Some code) []]))
      else Inr [])"

text \<open>The building element of one record and the member that holds it (lines 424-428).\<close>

definition citygml_blocks :: "(Building \<Rightarrow> error + elem list) list" where
  "citygml_blocks =
     [citygml_name, citygml_creation_date, citygml_termination_date,
      citygml_external_reference, citygml_id, citygml_demand_electricity,
      citygml_demand_thermal, citygml_usage, citygml_year_of_construction,
      citygml_roof_type, citygml_storeys, citygml_geometry, citygml_refurbishment,
      citygml_certification, citygml_height_above_ground, citygml_volume,
      citygml_energy_volume, citygml_floor_area, citygml_building_type]"

definition citygml_building :: "Building \<Rightarrow> error + elem" where
  "citygml_building bu =
     ebind (run_blocks citygml_blocks bu) (\<lambda>kids.
       Inr (Elem (cq ''bldg:Building'') [] None kids))"

definition citygml_member :: "elem \<Rightarrow> Building \<Rightarrow> error + elem" where
  "citygml_member rt bu =
     ebind (citygml_building bu) (\<lambda>b.
       Inr (SubElement rt (Elem (cq ''core:cityObjectMember'') [] None [b])))"

text \<open>\<^verbatim>\<open>CityGML.translate\<close>: the root after the loop over the source document.\<close>

definition CityGML_translate :: "elem \<Rightarrow> CitiEnGov \<Rightarrow> error + elem" where
  "CityGML_translate rt citi_en_gov = for_each citi_en_gov citygml_member rt"

section \<open>Reference functions and example documents\<close>

text \<open>A left fold whose step may raise.\<close>

fun efold :: "('a \<Rightarrow> 'b \<Rightarrow> error + 'a) \<Rightarrow> 'b list \<Rightarrow> 'a \<Rightarrow> error + 'a" where
  "efold f [] acc = Inr acc"
| "efold f (x # xs) acc = ebind (f acc x) (efold f xs)"

text \<open>The record of an identifier: the feature members whose first UUID text is the identifier.\<close>

definition building_of :: "elem list \<Rightarrow> string option \<Rightarrow> Building" where
  "building_of fm u = \<lparr>uuid = u, feature_list = filter (\<lambda>f. feature_uuid f = Inr u) fm\<rparr>"

text \<open>Source-schema names, for writing example documents.\<close>

definition ceg :: "string \<Rightarrow> string" where
  "ceg k = ''{http://maps.dedagroup.it/energy/geoserver/CitiEnGov_01_1}'' @ k"

definition gml :: "string \<Rightarrow> string" where
  "gml k = ''{http://www.opengis.net/gml}'' @ k"

text \<open>A document without feature members.\<close>

definition doc_no_members :: elem where
  "doc_no_members = Elem ''{http://www.opengis.net/wfs}FeatureCollection'' [] None []"

text \<open>A document whose second feature member has no UUID element.\<close>

definition member_a :: elem where
  "member_a = Elem (gml ''featureMember'') [] None
     [Elem (ceg ''GML_BUILDINGS_CEG'') [] None
        [Elem (ceg ''UUID'') [] (Some ''a'') []]]"



text \<open>A feature member with two UUID elements.\<close>

definition member_two_uuids :: elem where
  "member_two_uuids = Elem (gml ''featureMember'') [] None
     [Elem (ceg ''GML_BUILDINGS_CEG'') [] None
        [Elem (ceg ''UUID'') [] (Some ''a'') [], Elem (ceg ''UUID'') [] (Some ''b'') []]]"

definition doc_two_uuids :: elem where
  "doc_two_uuids = Elem ''{http://www.opengis.net/wfs}FeatureCollection'' [] None
     [member_two_uuids]"

text \<open>Two buildings, the first with two feature members, and the object built for them.\<close>

definition member_b :: elem where
  "member_b = Elem (gml ''featureMember'') [] None
     [Elem (ceg ''GML_BUILDINGS_CEG'') [] None [Elem (ceg ''UUID'') [] (Some ''b'') []]]"

definition doc_two_buildings :: elem where
  "doc_two_buildings = Elem ''{http://www.opengis.net/wfs}FeatureCollection'' [] None
     [member_a, member_b, member_a]"

definition citi_two_buildings :: CitiEnGov where
  "citi_two_buildings =
     \<lparr>root = doc_two_buildings, feature_members = [member_a, member_b, member_a],
      building_UUIDs = [Some ''b'', Some ''a''], UUID_index = 0, UUID = Some ''b'',
      building = \<lparr>uuid = Some ''b'', feature_list = [member_b]\<rparr>\<rparr>"

text \<open>Feature members with attributes and a footprint, and a document both translators accept.\<close>

definition geometry2d :: "string \<Rightarrow> elem" where
  "geometry2d cs =
     Elem (ceg ''GEOMETRY2D'') [] None
       [Elem (gml ''Polygon'') [] None
          [Elem (gml ''outerBoundaryIs'') [] None
             [Elem (gml ''LinearRing'') [] None
                [Elem (gml ''coordinates'') [(''decimal'', ''.''), (''cs'', '',''), (''ts'', '' '')]
                   (Some cs) []]]]]"

definition feature_member :: "string \<Rightarrow> (string \<times> string) list \<Rightarrow> elem list \<Rightarrow> elem" where
  "feature_member u kvs extra =
     Elem (gml ''featureMember'') [] None
       [Elem (ceg ''GML_BUILDINGS_CEG'') [] None
          (Elem (ceg ''UUID'') [] (Some u) []
           # map (\<lambda>(k, v). Elem (ceg k) [] (Some v) []) kvs @ extra)]"

definition doc_plain :: elem where
  "doc_plain = Elem ''{http://www.opengis.net/wfs}FeatureCollection'' [] None
     [feature_member ''a''
        [(''LIFESPAN_BEGINNING'', ''2001''), (''IDENTIFIER_ID_LOC'', ''l1''),
         (''IDENTIFIER_ID_NAME'', ''n1'')] [geometry2d ''1,2 3,4 1,2''],
      feature_member ''b''
        [(''LIFESPAN_BEGINNING'', ''2002''), (''IDENTIFIER_ID_LOC'', ''l2''),
         (''IDENTIFIER_ID_NAME'', ''n2'')] [geometry2d ''5,6 7,8 5,6''],
      feature_member ''a'' [(''FLOORS'', ''3'')] []]"


definition building_uses :: Building where
  "building_uses =
     \<lparr>uuid = Some ''a'',
      feature_list =
        [feature_member ''a'' [(''USE_M'', ''residenziale(80%),negozio(20%)'')] []]\<rparr>"

definition building_height :: Building where
  "building_height =
     \<lparr>uuid = Some ''a'',
      feature_list =
        [feature_member ''a''
           [(''HEIGHT_HEIGHT_VAL'', ''12.5''), (''HEIGHT_HEIGHT_STAT'', ''Stimata'')] []]\<rparr>"

definition building_height_ref :: Building where
  "building_height_ref =
     \<lparr>uuid = Some ''a'',
      feature_list =
        [feature_member ''a''
           [(''HEIGHT_HEIGHT_VAL'', ''12.5''), (''HEIGHT_HEIGHT_REF'', ''lowestEave''),
            (''HEIGHT_HEIGHT_STAT'', ''Stimata'')] []]\<rparr>"

definition building_height_stat :: Building where
  "building_height_stat =
     \<lparr>uuid = Some ''a'',
      feature_list =
        [feature_member ''a''
           [(''HEIGHT_HEIGHT_VAL'', ''12.5''), (''HEIGHT_HEIGHT_STAT'', ''measured'')] []]\<rparr>"

definition building_plain :: Building where
  "building_plain =
     \<lparr>uuid = Some ''b'',
      feature_list =
        [feature_member ''b''
           [(''LIFESPAN_BEGINNING'', ''2002''), (''IDENTIFIER_ID_LOC'', ''l2''),
            (''IDENTIFIER_ID_NAME'', ''n2'')] [geometry2d ''5,6 7,8 5,6'']]\<rparr>"





definition values_text :: "string option list \<Rightarrow> string" where
  "values_text vs = py_strip (concat (map (\<lambda>v. py_format v @ '' '') vs))"



section \<open>Auxiliary facts\<close>

lemma ebind_Inr [simp]: "ebind (Inr v) f = f v"
  by (simp add: ebind_def)

lemma ebind_Inl [simp]: "ebind (Inl e) f = Inl e"
  by (simp add: ebind_def)

lemma ebind_eq_Inr: "ebind r f = Inr y \<longleftrightarrow> (\<exists>v. r = Inr v \<and> f v = Inr y)"
  by (cases r) simp_all

lemmas path_eval = ET_findall_def ET_iterfind_def ET_find_def et_steps_def et_name_def
  py_partition_def py_dict_def namespaces_def uuid_path_def feature_uuid_path_def
  ceg_def gml_def

subsection \<open>Qualified names\<close>

lemma split_at_sep:
  "sep \<notin> set xs \<Longrightarrow>
     takeWhile (\<lambda>c. c \<noteq> sep) (xs @ sep # ys) = xs \<and>
     dropWhile (\<lambda>c. c \<noteq> sep) (xs @ sep # ys) = sep # ys"
  by (induction xs) auto

lemma py_rpartition_last:
  assumes "sep \<notin> set l"
  shows "py_rpartition sep (p @ sep # l) = (p, [sep], l)"
proof -
  have r: "rev (p @ sep # l) = rev l @ sep # rev p" by simp
  have "sep \<notin> set (rev l)" using assms by simp
  from split_at_sep [OF this, of "rev p"] show ?thesis
    unfolding py_rpartition_def r by simp
qed

lemma solve_inspire:
  assumes "p \<in> {''xmlns'', ''wfs'', ''xsi'', ''xlink'', ''gml'', ''gmd'', ''base'', ''bu-base'',
                ''bu-core2d''}"
    and "CHR '':'' \<notin> set l"
  shows "\<exists>uri. solve inspire_ns (p @ CHR '':'' # l) = Inr (''{'' @ uri @ ''}'' @ l)"
  using assms(1) unfolding solve_def py_rpartition_last [OF assms(2)]
  by (auto simp: py_getitem_def py_dict_def inspire_ns_def)

lemma solve_citygml:
  assumes "p \<in> {''wfs'', ''xsi'', ''xlink'', ''gml'', ''core'', ''energy'', ''bldg''}"
    and "CHR '':'' \<notin> set l"
  shows "\<exists>uri. solve city_gml_ns (p @ CHR '':'' # l) = Inr (''{'' @ uri @ ''}'' @ l)"
  using assms(1) unfolding solve_def py_rpartition_last [OF assms(2)]
  by (auto simp: py_getitem_def py_dict_def city_gml_ns_def)

subsection \<open>Paths\<close>

lemma concat_map_concat_map:
  "concat (map (\<lambda>c. concat (map g (h c))) xs) = concat (map g (concat (map h xs)))"
  by (induction xs) simp_all

lemma select_steps_append:
  "select_steps (xs @ ys) e = concat (map (select_steps ys) (select_steps xs e))"
proof (induction xs arbitrary: e)
  case Nil
  show ?case by simp
next
  case (Cons t ts)
  have "select_steps (ts @ ys) = (\<lambda>c. concat (map (select_steps ys) (select_steps ts c)))"
    by (rule ext) (rule Cons.IH)
  then show ?case by (simp add: concat_map_concat_map)
qed

lemma uuid_path_steps:
  "et_steps namespaces uuid_path =
     et_steps namespaces ''./gml:featureMember'' @ et_steps namespaces feature_uuid_path"
  by (simp add: et_steps_def uuid_path_def feature_uuid_path_def et_name_def py_partition_def
        py_dict_def namespaces_def)

lemma list_of_uuids_features:
  "list_of_uuids rt =
     concat (map (\<lambda>f. map etext (ET_iterfind namespaces feature_uuid_path f))
               (ET_findall namespaces ''./gml:featureMember'' rt))"
  by (simp add: list_of_uuids_def ET_iterfind_def ET_findall_def uuid_path_steps
        select_steps_append map_concat comp_def)


subsection \<open>Grouping feature members\<close>

lemma select_features_Inl:
  "f \<in> set fm \<Longrightarrow> ET_find namespaces feature_uuid_path f = None \<Longrightarrow>
     select_features fm u = Inl AttributeError"
proof (induction fm)
  case Nil
  then show ?case by simp
next
  case (Cons g gs)
  show ?case
  proof (cases "feature_uuid g")
    case (Inl e)
    then have "e = AttributeError"
      by (auto simp: feature_uuid_def split: option.splits)
    with Inl show ?thesis by simp
  next
    case (Inr t)
    with Cons.prems have "f \<in> set gs"
      by (auto simp: feature_uuid_def)
    with Cons have "select_features gs u = Inl AttributeError" by simp
    with Inr show ?thesis by simp
  qed
qed

lemma select_features_Inr:
  "(\<forall>f \<in> set fm. ET_find namespaces feature_uuid_path f \<noteq> None) \<Longrightarrow>
     select_features fm u = Inr (filter (\<lambda>f. feature_uuid f = Inr u) fm)"
proof (induction fm)
  case Nil
  show ?case by simp
next
  case (Cons g gs)
  then obtain x where x: "ET_find namespaces feature_uuid_path g = Some x" by auto
  have "feature_uuid g = Inr (etext x)" by (simp add: feature_uuid_def x)
  with Cons show ?case by simp
qed

lemma select_features_total:
  "select_features fm u = Inr r \<Longrightarrow> \<forall>f \<in> set fm. ET_find namespaces feature_uuid_path f \<noteq> None"
  using select_features_Inl [of _ fm u] by fastforce

lemma get_building_Inr:
  "(\<forall>f \<in> set fm. ET_find namespaces feature_uuid_path f \<noteq> None) \<Longrightarrow>
     get_building fm u = Inr (building_of fm u)"
  by (simp add: get_building_def select_features_Inr building_of_def)

lemma CitiEnGov_init_Inr:
  assumes "CitiEnGov_init list_set rt = Inr c"
  shows "feature_members c = ET_findall namespaces ''./gml:featureMember'' rt"
    and "building_UUIDs c = buildingIdentifiers list_set rt"
    and "UUID_index c = 0"
    and "\<forall>f \<in> set (feature_members c). ET_find namespaces feature_uuid_path f \<noteq> None"
  using assms
  by (auto simp: CitiEnGov_init_def Let_def get_building_def
      split: list.splits sum.splits dest: select_features_total)

subsection \<open>The iteration as a fold over the identifiers\<close>

lemma for_each_efold:
  "(\<forall>f \<in> set (feature_members c). ET_find namespaces feature_uuid_path f \<noteq> None) \<Longrightarrow>
     for_each c body acc =
       efold (\<lambda>a u. body a (building_of (feature_members c) u))
         (drop (UUID_index c) (building_UUIDs c)) acc"
proof (induction c body acc rule: for_each.induct)
  case (1 c body acc)
  note fm = "1.prems"
  show ?case
  proof (cases "UUID_index c < length (building_UUIDs c)")
    case False
    then show ?thesis
      by (subst for_each.simps) (simp add: CitiEnGov_next_def)
  next
    case True
    let ?u = "building_UUIDs c ! UUID_index c"
    let ?b = "building_of (feature_members c) ?u"
    let ?c' = "c\<lparr>UUID := ?u, building := ?b, UUID_index := UUID_index c + 1\<rparr>"
    have nx: "CitiEnGov_next c = (Inr ?b, ?c')"
      using True fm by (simp add: CitiEnGov_next_def get_building_Inr Let_def)
    have dr: "drop (UUID_index c) (building_UUIDs c) =
                ?u # drop (UUID_index c + 1) (building_UUIDs c)"
      using True by (simp add: Cons_nth_drop_Suc)
    show ?thesis
    proof (cases "body acc ?b")
      case (Inl e)
      then show ?thesis
        by (subst for_each.simps) (simp add: nx dr)
    next
      case (Inr acc')
      have "for_each ?c' body acc' =
              efold (\<lambda>a u. body a (building_of (feature_members ?c') u))
                (drop (UUID_index ?c') (building_UUIDs ?c')) acc'"
        using "1.IH" [of ?b acc'] nx Inr fm by simp
      then show ?thesis
        by (subst for_each.simps) (simp add: nx dr Inr)
    qed
  qed
qed

subsection \<open>Listings of a set\<close>

lemma set_listing_Nil: "set_listing list_set \<Longrightarrow> list_set [] = []"
proof -
  assume "set_listing list_set"
  then have "set (list_set []) = set []"
    unfolding set_listing_def by blast
  then show ?thesis by simp
qed

lemma set_listing_remdups: "set_listing remdups"
  by (simp add: set_listing_def)


section \<open>The source document\<close>

text \<open>
  Claim C10. A source document without feature members has an empty identifier list,
  and constructing the \<^verbatim>\<open>CitiEnGov\<close> object for it fails: \<^verbatim>\<open>self.building_UUIDs[0]\<close>
  raises \<^verbatim>\<open>IndexError\<close>. No object, and so no empty sequence of buildings, is produced.
\<close>

theorem C10_no_feature_members:
  assumes "set_listing list_set"
    and "ET_findall namespaces ''./gml:featureMember'' rt = []"
  shows "buildingIdentifiers list_set rt = [] \<and> CitiEnGov_init list_set rt = Inl IndexError"
proof -
  have "list_of_uuids rt = []"
    using assms(2) by (simp add: list_of_uuids_features)
  then have "buildingIdentifiers list_set rt = []"
    using assms(1) by (simp add: buildingIdentifiers_def set_listing_Nil)
  then show ?thesis
    by (simp add: CitiEnGov_init_def)
qed

theorem C10_witness:
  "set_listing (remdups :: string option list \<Rightarrow> string option list)
   \<and> ET_findall namespaces ''./gml:featureMember'' doc_no_members = []
   \<and> buildingIdentifiers remdups doc_no_members = []
   \<and> CitiEnGov_init remdups doc_no_members = Inl IndexError"
proof -
  have a: "set_listing (remdups :: string option list \<Rightarrow> string option list)"
    by (rule set_listing_remdups)
  have b: "ET_findall namespaces ''./gml:featureMember'' doc_no_members = []"
    by (simp add: ET_findall_def ET_iterfind_def doc_no_members_def et_steps_def)
  show ?thesis
    using a b C10_no_feature_members [OF a b] by simp
qed




subsection \<open>The buildings of an iteration\<close>

lemma efold_collect:
  "efold (\<lambda>a u. Inr (a @ [g u])) us acc = Inr (acc @ map g us)"
  by (induction us arbitrary: acc) simp_all

lemma buildings_init:
  assumes "CitiEnGov_init list_set rt = Inr c"
  shows "buildings c = Inr (map (building_of (feature_members c)) (building_UUIDs c))"
  using CitiEnGov_init_Inr [OF assms]
  by (simp add: buildings_def for_each_efold efold_collect)

lemma two_buildings_members:
  "ET_findall namespaces ''./gml:featureMember'' doc_two_buildings = [member_a, member_b, member_a]"
  by (simp add: doc_two_buildings_def member_a_def member_b_def path_eval)

lemma two_buildings_ids:
  "buildingIdentifiers remdups doc_two_buildings = [Some ''b'', Some ''a'']"
  by (simp add: buildingIdentifiers_def list_of_uuids_def doc_two_buildings_def
        member_a_def member_b_def path_eval)

lemma feature_uuid_member_a: "feature_uuid member_a = Inr (Some ''a'')"
  by (simp add: feature_uuid_def member_a_def path_eval)

lemma feature_uuid_member_b: "feature_uuid member_b = Inr (Some ''b'')"
  by (simp add: feature_uuid_def member_b_def path_eval)

lemma two_buildings_init:
  "CitiEnGov_init remdups doc_two_buildings = Inr citi_two_buildings"
  by (simp add: CitiEnGov_init_def two_buildings_members two_buildings_ids get_building_def
        feature_uuid_member_a feature_uuid_member_b Let_def citi_two_buildings_def)

lemma efold_members:
  assumes "efold (\<lambda>a bu. ebind (mk bu) (\<lambda>b. Inr (SubElement a (Elem mt [] None [b])))) bus rt = Inr out"
  shows "\<exists>bs. length bs = length bus \<and> (\<forall>b \<in> set bs. \<exists>bu. mk bu = Inr b) \<and>
           out = Elem (tag rt) (attrib rt) (etext rt)
                   (children rt @ map (\<lambda>b. Elem mt [] None [b]) bs)"
  using assms
proof (induction bus arbitrary: rt)
  case Nil
  then show ?case by simp
next
  case (Cons bu bus)
  from Cons.prems obtain b where b: "mk bu = Inr b"
    and rest: "efold (\<lambda>a bu. ebind (mk bu) (\<lambda>b. Inr (SubElement a (Elem mt [] None [b])))) bus
                 (SubElement rt (Elem mt [] None [b])) = Inr out"
    by (auto simp: ebind_eq_Inr)
  from Cons.IH [OF rest] obtain bs where bs: "length bs = length bus"
    "\<forall>b \<in> set bs. \<exists>bu. mk bu = Inr b"
    "out = Elem (tag rt) (attrib rt) (etext rt)
             (children rt @ [Elem mt [] None [b]] @ map (\<lambda>b. Elem mt [] None [b]) bs)"
    by (auto simp: SubElement_def)
  show ?case
    by (rule exI [of _ "b # bs"]) (use b bs in auto)
qed

lemma select_members:
  "\<forall>b \<in> set bs. tag b = bt \<Longrightarrow>
     select_steps [mt, bt] (Elem t a x (map (\<lambda>b. Elem mt [] None [b]) bs)) = bs"
  by (induction bs) simp_all

lemma inspire_building_tag: "inspire_building bu = Inr b \<Longrightarrow> tag b = iq ''bu-core2d:Building''"
  by (auto simp: inspire_building_def ebind_eq_Inr)

lemma citygml_building_tag: "citygml_building bu = Inr b \<Longrightarrow> tag b = cq ''bldg:Building''"
  by (auto simp: citygml_building_def ebind_eq_Inr)

lemma translate_count:
  assumes "\<forall>f \<in> set (feature_members c). ET_find namespaces feature_uuid_path f \<noteq> None"
    and "UUID_index c = 0"
    and "children rt = []"
    and "\<And>bu b. mk bu = Inr b \<Longrightarrow> tag b = bt"
    and "for_each c (\<lambda>a bu. ebind (mk bu) (\<lambda>b. Inr (SubElement a (Elem mt [] None [b])))) rt = Inr out"
  shows "length (select_steps [mt, bt] out) = length (building_UUIDs c)"
proof -
  let ?mk = "\<lambda>u. mk (building_of (feature_members c) u)"
  have "efold (\<lambda>a u. ebind (?mk u) (\<lambda>b. Inr (SubElement a (Elem mt [] None [b]))))
          (building_UUIDs c) rt = Inr out"
    using assms(5) by (simp add: for_each_efold [OF assms(1)] assms(2))
  from efold_members [OF this] obtain bs where bs: "length bs = length (building_UUIDs c)"
    "\<forall>b \<in> set bs. \<exists>u. ?mk u = Inr b"
    "out = Elem (tag rt) (attrib rt) (etext rt) (map (\<lambda>b. Elem mt [] None [b]) bs)"
    using assms(3) by auto
  have "\<forall>b \<in> set bs. tag b = bt"
    using bs(2) assms(4) by blast
  then have "select_steps [mt, bt] out = bs"
    unfolding bs(3) by (rule select_members)
  then show ?thesis
    using bs(1) by simp
qed

text \<open>
  Claim C9, as stated, fails for a feature member with two UUID elements: both texts
  become identifiers, but \<^verbatim>\<open>get_building\<close> compares only the first UUID of a
  feature member, so the record of the second identifier has no fragments.
\<close>

theorem C9_counterexample:
  "ebind (CitiEnGov_init remdups doc_two_uuids) buildings =
     Inr [\<lparr>uuid = Some ''a'', feature_list = [member_two_uuids]\<rparr>,
          \<lparr>uuid = Some ''b'', feature_list = []\<rparr>]"
proof -
  have fm: "ET_findall namespaces ''./gml:featureMember'' doc_two_uuids = [member_two_uuids]"
    by (simp add: doc_two_uuids_def member_two_uuids_def path_eval)
  have ids: "buildingIdentifiers remdups doc_two_uuids = [Some ''a'', Some ''b'']"
    by (simp add: buildingIdentifiers_def list_of_uuids_def doc_two_uuids_def
        member_two_uuids_def path_eval)
  have fu: "feature_uuid member_two_uuids = Inr (Some ''a'')"
    by (simp add: feature_uuid_def member_two_uuids_def path_eval)
  have "\<exists>c. CitiEnGov_init remdups doc_two_uuids = Inr c"
    by (simp add: CitiEnGov_init_def fm ids get_building_def fu Let_def)
  then obtain c where c: "CitiEnGov_init remdups doc_two_uuids = Inr c" ..
  have "buildings c = Inr (map (building_of [member_two_uuids]) [Some ''a'', Some ''b''])"
    using buildings_init [OF c] CitiEnGov_init_Inr(1,2) [OF c] by (simp add: fm ids)
  then show ?thesis
    by (simp add: c building_of_def fu)
qed

text \<open>
  Claim C9, amended. When every feature member has at most one UUID element at the
  fixed path, the iteration over a constructed source document yields one record per
  identifier, in the order of the identifier list; each record has a non-empty fragment
  list, and its fragments are exactly the feature members whose UUID text equals the
  record's identifier. \<^verbatim>\<open>Building.find\<close> is a function of the record and returns
  no record, so the fragment list is not changed after construction.
\<close>

theorem C9_building_records:
  assumes "set_listing list_set"
    and "CitiEnGov_init list_set rt = Inr c"
    and "\<forall>f \<in> set (feature_members c). length (ET_iterfind namespaces feature_uuid_path f) \<le> 1"
  shows "\<exists>bs. buildings c = Inr bs \<and> map uuid bs = building_UUIDs c \<and>
           (\<forall>b \<in> set bs. feature_list b \<noteq> [] \<and>
              feature_list b = filter (\<lambda>f. feature_uuid f = Inr (uuid b)) (feature_members c))"
proof -
  let ?fm = "feature_members c"
  let ?bs = "map (building_of ?fm) (building_UUIDs c)"
  have bs: "buildings c = Inr ?bs"
    by (rule buildings_init [OF assms(2)])
  have ids: "map uuid ?bs = building_UUIDs c"
    by (simp add: building_of_def comp_def)
  have "feature_list b \<noteq> [] \<and> feature_list b = filter (\<lambda>f. feature_uuid f = Inr (uuid b)) ?fm"
    if "b \<in> set ?bs" for b
  proof -
    from that obtain u where u: "u \<in> set (building_UUIDs c)" and b: "b = building_of ?fm u"
      by auto
    have "set (building_UUIDs c) = set (list_of_uuids rt)"
      using assms(1) CitiEnGov_init_Inr(2) [OF assms(2)]
      by (simp add: buildingIdentifiers_def set_listing_def)
    with u have "u \<in> set (list_of_uuids rt)" by simp
    then obtain f x where f: "f \<in> set ?fm"
      and x: "x \<in> set (ET_iterfind namespaces feature_uuid_path f)" and ux: "u = etext x"
      using CitiEnGov_init_Inr(1) [OF assms(2)] by (auto simp: list_of_uuids_features)
    from assms(3) f have "length (ET_iterfind namespaces feature_uuid_path f) \<le> 1" by blast
    with x have "ET_iterfind namespaces feature_uuid_path f = [x]"
      by (cases "ET_iterfind namespaces feature_uuid_path f") auto
    then have "feature_uuid f = Inr u"
      by (simp add: feature_uuid_def ET_find_def ux)
    with f have "f \<in> set (feature_list b)"
      by (simp add: b building_of_def)
    then have "feature_list b \<noteq> []" by auto
    then show ?thesis
      by (simp add: b building_of_def)
  qed
  with bs ids show ?thesis by blast
qed

theorem C9_witness:
  "set_listing (remdups :: string option list \<Rightarrow> string option list)
   \<and> CitiEnGov_init remdups doc_two_buildings = Inr citi_two_buildings
   \<and> length (ET_iterfind namespaces feature_uuid_path member_a) \<le> 1
   \<and> length (ET_iterfind namespaces feature_uuid_path member_b) \<le> 1
   \<and> buildings citi_two_buildings =
       Inr [\<lparr>uuid = Some ''b'', feature_list = [member_b]\<rparr>,
            \<lparr>uuid = Some ''a'', feature_list = [member_a, member_a]\<rparr>]"
proof -
  have a: "set_listing (remdups :: string option list \<Rightarrow> string option list)"
    by (rule set_listing_remdups)
  have la: "length (ET_iterfind namespaces feature_uuid_path member_a) \<le> 1"
    by (simp add: member_a_def path_eval)
  have lb: "length (ET_iterfind namespaces feature_uuid_path member_b) \<le> 1"
    by (simp add: member_b_def path_eval)
  have c: "\<forall>f \<in> set (feature_members citi_two_buildings).
             length (ET_iterfind namespaces feature_uuid_path f) \<le> 1"
    using la lb by (simp add: citi_two_buildings_def)
  obtain bs where bs: "buildings citi_two_buildings = Inr bs"
    and ids: "map uuid bs = building_UUIDs citi_two_buildings"
    and fl: "\<forall>b \<in> set bs. feature_list b \<noteq> [] \<and> feature_list b =
          filter (\<lambda>f. feature_uuid f = Inr (uuid b)) (feature_members citi_two_buildings)"
    using C9_building_records [OF a two_buildings_init c] by blast
  from ids obtain b1 b2 where b12: "bs = [b1, b2]" "uuid b1 = Some ''b''" "uuid b2 = Some ''a''"
    by (auto simp: citi_two_buildings_def map_eq_Cons_conv)
  from fl b12 have "feature_list b1 = [member_b]" "feature_list b2 = [member_a, member_a]"
    by (simp_all add: citi_two_buildings_def feature_uuid_member_a feature_uuid_member_b)
  with b12 have "bs = [\<lparr>uuid = Some ''b'', feature_list = [member_b]\<rparr>,
            \<lparr>uuid = Some ''a'', feature_list = [member_a, member_a]\<rparr>]"
    by simp
  with a la lb bs two_buildings_init show ?thesis by simp
qed

text \<open>
  Claim C1. For a constructed source document, the iteration yields exactly one record
  per identifier of \<^verbatim>\<open>buildingIdentifiers()\<close>, each once; and when \<^verbatim>\<open>translate\<close>
  returns, the number of building elements under the members of the output root
  (\<^verbatim>\<open>wfs:member/bu-core2d:Building\<close> for INSPIRE,
  \<^verbatim>\<open>core:cityObjectMember/bldg:Building\<close> for CityGML) is the number of distinct
  identifiers.
\<close>

theorem C1_one_building_per_identifier:
  assumes "set_listing list_set"
    and "CitiEnGov_init list_set rt = Inr c"
  shows "(\<exists>bs. buildings c = Inr bs \<and> map uuid bs = buildingIdentifiers list_set rt
            \<and> distinct (map uuid bs) \<and> set (map uuid bs) = set (list_of_uuids rt))
       \<and> (\<forall>out. Inspire_translate (Inspire_init ts) c = Inr out \<longrightarrow>
             length (select_steps [iq ''wfs:member'', iq ''bu-core2d:Building''] out) =
               card (set (buildingIdentifiers list_set rt)))
       \<and> (\<forall>out. CityGML_translate CityGML_init c = Inr out \<longrightarrow>
             length (select_steps [cq ''core:cityObjectMember'', cq ''bldg:Building''] out) =
               card (set (buildingIdentifiers list_set rt)))"
proof -
  note init = CitiEnGov_init_Inr [OF assms(2)]
  have d: "distinct (buildingIdentifiers list_set rt)"
    and s: "set (buildingIdentifiers list_set rt) = set (list_of_uuids rt)"
    using assms(1) by (simp_all add: buildingIdentifiers_def set_listing_def)
  have card: "card (set (buildingIdentifiers list_set rt)) = length (building_UUIDs c)"
    using d init(2) by (simp add: distinct_card)
  have "buildings c = Inr (map (building_of (feature_members c)) (building_UUIDs c))"
    by (rule buildings_init [OF assms(2)])
  moreover have "map uuid (map (building_of (feature_members c)) (building_UUIDs c)) =
      buildingIdentifiers list_set rt"
    by (simp add: building_of_def comp_def init(2))
  ultimately have one: "\<exists>bs. buildings c = Inr bs \<and> map uuid bs = buildingIdentifiers list_set rt
            \<and> distinct (map uuid bs) \<and> set (map uuid bs) = set (list_of_uuids rt)"
    using d s by (metis (no_types))
  have two: "length (select_steps [iq ''wfs:member'', iq ''bu-core2d:Building''] out) =
               card (set (buildingIdentifiers list_set rt))"
    if "Inspire_translate (Inspire_init ts) c = Inr out" for out
  proof -
    have "for_each c (\<lambda>a bu. ebind (inspire_building bu)
             (\<lambda>b. Inr (SubElement a (Elem (iq ''wfs:member'') [] None [b])))) (Inspire_init ts) = Inr out"
      using that by (simp add: Inspire_translate_def inspire_member_def [abs_def])
    from translate_count [OF init(4) init(3) _ inspire_building_tag this]
    show ?thesis by (simp add: card Inspire_init_def)
  qed
  have three: "length (select_steps [cq ''core:cityObjectMember'', cq ''bldg:Building''] out) =
               card (set (buildingIdentifiers list_set rt))"
    if "CityGML_translate CityGML_init c = Inr out" for out
  proof -
    have "for_each c (\<lambda>a bu. ebind (citygml_building bu)
             (\<lambda>b. Inr (SubElement a (Elem (cq ''core:cityObjectMember'') [] None [b])))) CityGML_init = Inr out"
      using that by (simp add: CityGML_translate_def citygml_member_def [abs_def])
    from translate_count [OF init(4) init(3) _ citygml_building_tag this]
    show ?thesis by (simp add: card CityGML_init_def)
  qed
  from one two three show ?thesis by blast
qed

theorem C1_witness:
  "set_listing (remdups :: string option list \<Rightarrow> string option list)
   \<and> \<not> isl (CitiEnGov_init remdups doc_plain)
   \<and> \<not> isl (Inspire_translate (Inspire_init ''T'') (projr (CitiEnGov_init remdups doc_plain)))
   \<and> length (select_steps [iq ''wfs:member'', iq ''bu-core2d:Building'']
        (projr (Inspire_translate (Inspire_init ''T'')
                  (projr (CitiEnGov_init remdups doc_plain))))) =
      card (set (buildingIdentifiers remdups doc_plain))
   \<and> \<not> isl (CityGML_translate CityGML_init (projr (CitiEnGov_init remdups doc_plain)))
   \<and> length (select_steps [cq ''core:cityObjectMember'', cq ''bldg:Building'']
        (projr (CityGML_translate CityGML_init
                  (projr (CitiEnGov_init remdups doc_plain))))) =
      card (set (buildingIdentifiers remdups doc_plain))
   \<and> card (set (buildingIdentifiers remdups doc_plain)) = 2"
proof -
  let ?c = "projr (CitiEnGov_init remdups doc_plain)"
  have a: "set_listing (remdups :: string option list \<Rightarrow> string option list)"
    by (rule set_listing_remdups)
  have i: "\<not> isl (CitiEnGov_init remdups doc_plain)"
    by code_simp
  then have c: "CitiEnGov_init remdups doc_plain = Inr ?c"
    by simp
  have ti: "\<not> isl (Inspire_translate (Inspire_init ''T'') ?c)"
    by code_simp
  then have oi: "Inspire_translate (Inspire_init ''T'') ?c =
                   Inr (projr (Inspire_translate (Inspire_init ''T'') ?c))"
    by simp
  have tc: "\<not> isl (CityGML_translate CityGML_init ?c)"
    by code_simp
  then have oc: "CityGML_translate CityGML_init ?c =
                   Inr (projr (CityGML_translate CityGML_init ?c))"
    by simp
  have n: "card (set (buildingIdentifiers remdups doc_plain)) = 2"
    by code_simp
  show ?thesis
    using a i ti tc n oi oc C1_one_building_per_identifier [OF a c, of "''T''"]
    by blast
qed

section \<open>The INSPIRE translator\<close>

lemmas find_eval = Building_find_def Building_path_def feature_member_def path_eval

lemma length_py_split: "length (py_split sep s) = Suc (count_list s sep)"
  by (induction s) (auto split: list.splits)

lemma takeWhile_notin: "sep \<notin> set s \<Longrightarrow> takeWhile (\<lambda>c. c \<noteq> sep) s = s"
  by (induction s) auto

lemma dropWhile_notin: "sep \<notin> set s \<Longrightarrow> dropWhile (\<lambda>c. c \<noteq> sep) s = []"
  by (induction s) auto

lemma py_partition_parts:
  "py_partition sep s =
     (takeWhile (\<lambda>c. c \<noteq> sep) s, (if sep \<in> set s then [sep] else []),
      tl (dropWhile (\<lambda>c. c \<noteq> sep) s))"
  by (simp add: py_partition_def takeWhile_notin dropWhile_notin)

lemma emap_Inr:
  "\<forall>x \<in> set xs. f x = Inr (g x) \<Longrightarrow> emap f xs = Inr (map g xs)"
  by (induction xs) simp_all


text \<open>
  Claim C5. When USE_M is present with a text and every use term is in the
  current-use code-list, the block emits one \<^verbatim>\<open>currentUse\<close> element per
  comma-separated entry, in order: the use term is the part of the entry before its
  first \<^verbatim>\<open>(\<close>, resolved through the code-list; the percentage text is the rest with
  \<^verbatim>\<open>%\<close> and \<^verbatim>\<open>)\<close> stripped. The number of entries is one more than the number
  of commas. The witness is the input \<^verbatim>\<open>residenziale(80%),negozio(20%)\<close>.
\<close>

theorem C5_current_use_blocks:
  assumes "Building_find bu ''USE_M'' = Some e"
    and "etext e = Some s"
    and "\<forall>use \<in> set (py_split CHR '','' s).
           current_use_dict (takeWhile (\<lambda>c. c \<noteq> CHR ''('') use) \<noteq> None"
  shows "inspire_current_use bu =
           Inr (map (\<lambda>use.
                  Elem (iq ''bu-base:currentUse'') [] None
                    [Elem (iq ''bu-base:CurrentUse'') [] None
                       [Elem (iq ''bu-base:currentUse'')
                          [(iq ''xlink:href'',
                            the (current_use_dict (takeWhile (\<lambda>c. c \<noteq> CHR ''('') use)))]
                          None [],
                        Elem (iq ''bu-base:percentage'') []
                          (Some (py_strip_chars ''%)''
                                   (tl (dropWhile (\<lambda>c. c \<noteq> CHR ''('') use)))) []]])
                (py_split CHR '','' s))
         \<and> length (py_split CHR '','' s) = Suc (count_list s CHR '','')"
proof -
  let ?blk = "\<lambda>use.
                  Elem (iq ''bu-base:currentUse'') [] None
                    [Elem (iq ''bu-base:CurrentUse'') [] None
                       [Elem (iq ''bu-base:currentUse'')
                          [(iq ''xlink:href'',
                            the (current_use_dict (takeWhile (\<lambda>c. c \<noteq> CHR ''('') use)))]
                          None [],
                        Elem (iq ''bu-base:percentage'') []
                          (Some (py_strip_chars ''%)''
                                   (tl (dropWhile (\<lambda>c. c \<noteq> CHR ''('') use)))) []]]"
  have "inspire_use_block use = Inr (?blk use)" if "use \<in> set (py_split CHR '','' s)" for use
  proof -
    from assms(3) that obtain uri
      where "current_use_dict (takeWhile (\<lambda>c. c \<noteq> CHR ''('') use) = Some uri"
      by auto
    then show ?thesis
      by (simp add: inspire_use_block_def py_partition_parts py_getitem_def)
  qed
  then have "emap inspire_use_block (py_split CHR '','' s) = Inr (map ?blk (py_split CHR '','' s))"
    by (intro emap_Inr) blast
  then show ?thesis
    using assms(1,2) by (simp add: inspire_current_use_def find_text_def length_py_split)
qed

theorem C5_witness:
  "map_option etext (Building_find building_uses ''USE_M'') =
     Some (Some ''residenziale(80%),negozio(20%)'')
   \<and> py_split CHR '','' ''residenziale(80%),negozio(20%)'' = [''residenziale(80%)'', ''negozio(20%)'']
   \<and> inspire_current_use building_uses =
       Inr [Elem (iq ''bu-base:currentUse'') [] None
              [Elem (iq ''bu-base:CurrentUse'') [] None
                 [Elem (iq ''bu-base:currentUse'')
                    [(iq ''xlink:href'',
                      ''http://inspire.ec.europa.eu/codelist/CurrentUseValue/residential'')]
                    None [],
                  Elem (iq ''bu-base:percentage'') [] (Some ''80'') []]],
            Elem (iq ''bu-base:currentUse'') [] None
              [Elem (iq ''bu-base:CurrentUse'') [] None
                 [Elem (iq ''bu-base:currentUse'')
                    [(iq ''xlink:href'',
                      ''http://inspire.ec.europa.eu/codelist/CurrentUseValue/trade'')]
                    None [],
                  Elem (iq ''bu-base:percentage'') [] (Some ''20'') []]]]"
proof -
  let ?s = "''residenziale(80%),negozio(20%)''"
  have a: "Building_find building_uses ''USE_M'' = Some (Elem (ceg ''USE_M'') [] (Some ?s) [])"
    by (simp add: building_uses_def find_eval)
  have b: "etext (Elem (ceg ''USE_M'') [] (Some ?s) []) = Some ?s"
    by simp
  have sp: "py_split CHR '','' ?s = [''residenziale(80%)'', ''negozio(20%)'']"
    by simp
  have c: "\<forall>use \<in> set (py_split CHR '','' ?s).
             current_use_dict (takeWhile (\<lambda>c. c \<noteq> CHR ''('') use) \<noteq> None"
    by (simp add: sp current_use_dict_def py_dict_def)
  show ?thesis
    using C5_current_use_blocks [OF a b c]
    by (simp add: a sp current_use_dict_def py_dict_def py_strip_chars_def py_rstrip_chars_def)
qed

text \<open>
  Claim C6. For a building with HEIGHT_HEIGHT_VAL present: when HEIGHT_HEIGHT_REF is
  absent, the reference is the code-list entry of the default term \<^verbatim>\<open>generalroof\<close>,
  and (with a status term of the code-list) the value text is copied unchanged into an
  element with the attribute \<^verbatim>\<open>uom="m"\<close>; a reference term outside the elevation
  code-list raises \<^verbatim>\<open>KeyError\<close>; a status term outside the status code-list raises
  \<^verbatim>\<open>KeyError\<close>. Terms are looked up in lower case.
\<close>

theorem C6_height_above_ground:
  assumes "Building_find bu ''HEIGHT_HEIGHT_VAL'' = Some v"
  shows "(Building_find bu ''HEIGHT_HEIGHT_REF'' = None \<longrightarrow>
           (\<forall>st s su. Building_find bu ''HEIGHT_HEIGHT_STAT'' = Some st \<longrightarrow> etext st = Some s \<longrightarrow>
              height_status_dict (py_lower s) = Some su \<longrightarrow>
              inspire_height_above_ground bu =
                Inr [Elem (iq ''bu-base:heightAboveGround'') [] None
                       [Elem (iq ''bu-base:HeightAboveGround'') [] None
                          [Elem (iq ''bu-base:heightReference'')
                             [(iq ''xlink:href'',
                               ''http://inspire.ec.europa.eu/codelist/ElevationReferenceValue/generalRoof'')]
                             None [],
                           Elem (iq ''bu-base:lowReference'') [] None [],
                           Elem (iq ''bu-base:status'') [(iq ''xlink:href'', su)] None [],
                           Elem (iq ''bu-base:value'') [(''uom'', ''m'')] (etext v) []]]]))
       \<and> elevation_reference_dict ''generalroof'' =
           Some ''http://inspire.ec.europa.eu/codelist/ElevationReferenceValue/generalRoof''
       \<and> (\<forall>r t. Building_find bu ''HEIGHT_HEIGHT_REF'' = Some r \<longrightarrow> etext r = Some t \<longrightarrow>
              elevation_reference_dict (py_lower t) = None \<longrightarrow>
              inspire_height_above_ground bu = Inl KeyError)
       \<and> (\<forall>st s. (Building_find bu ''HEIGHT_HEIGHT_REF'' = None \<or>
                   (\<exists>r t. Building_find bu ''HEIGHT_HEIGHT_REF'' = Some r \<and> etext r = Some t \<and>
                          elevation_reference_dict (py_lower t) \<noteq> None)) \<longrightarrow>
              Building_find bu ''HEIGHT_HEIGHT_STAT'' = Some st \<longrightarrow> etext st = Some s \<longrightarrow>
              height_status_dict (py_lower s) = None \<longrightarrow>
              inspire_height_above_ground bu = Inl KeyError)"
proof -
  have gr: "elevation_reference_dict ''generalroof'' =
           Some ''http://inspire.ec.europa.eu/codelist/ElevationReferenceValue/generalRoof''"
    by (simp add: elevation_reference_dict_def py_dict_def)
  show ?thesis
    using assms gr
    by (auto simp: inspire_height_above_ground_def find_text_lower_def find_text_def
        text_lower_def py_getitem_def)
qed

theorem C6_witness:
  "map_option etext (Building_find building_height ''HEIGHT_HEIGHT_VAL'') = Some (Some ''12.5'')
   \<and> Building_find building_height ''HEIGHT_HEIGHT_REF'' = None
   \<and> inspire_height_above_ground building_height =
       Inr [Elem (iq ''bu-base:heightAboveGround'') [] None
              [Elem (iq ''bu-base:HeightAboveGround'') [] None
                 [Elem (iq ''bu-base:heightReference'')
                    [(iq ''xlink:href'',
                      ''http://inspire.ec.europa.eu/codelist/ElevationReferenceValue/generalRoof'')]
                    None [],
                  Elem (iq ''bu-base:lowReference'') [] None [],
                  Elem (iq ''bu-base:status'')
                    [(iq ''xlink:href'',
                      ''http://inspire.ec.europa.eu/codelist/HeightStatusValue/estimated'')]
                    None [],
                  Elem (iq ''bu-base:value'') [(''uom'', ''m'')] (Some ''12.5'') []]]]
   \<and> map_option etext (Building_find building_height_ref ''HEIGHT_HEIGHT_REF'') =
       Some (Some ''lowestEave'')
   \<and> inspire_height_above_ground building_height_ref = Inl KeyError
   \<and> map_option etext (Building_find building_height_stat ''HEIGHT_HEIGHT_STAT'') =
       Some (Some ''measured'')
   \<and> inspire_height_above_ground building_height_stat = Inl KeyError"
proof -
  have v1: "Building_find building_height ''HEIGHT_HEIGHT_VAL'' =
              Some (Elem (ceg ''HEIGHT_HEIGHT_VAL'') [] (Some ''12.5'') [])"
    by code_simp
  have r1: "Building_find building_height ''HEIGHT_HEIGHT_REF'' = None"
    by code_simp
  have s1: "Building_find building_height ''HEIGHT_HEIGHT_STAT'' =
              Some (Elem (ceg ''HEIGHT_HEIGHT_STAT'') [] (Some ''Stimata'') [])"
    by code_simp
  have d1: "height_status_dict (py_lower ''Stimata'') =
              Some ''http://inspire.ec.europa.eu/codelist/HeightStatusValue/estimated''"
    by code_simp
  have v2: "Building_find building_height_ref ''HEIGHT_HEIGHT_VAL'' =
              Some (Elem (ceg ''HEIGHT_HEIGHT_VAL'') [] (Some ''12.5'') [])"
    by code_simp
  have r2: "Building_find building_height_ref ''HEIGHT_HEIGHT_REF'' =
              Some (Elem (ceg ''HEIGHT_HEIGHT_REF'') [] (Some ''lowestEave'') [])"
    by code_simp
  have d2: "elevation_reference_dict (py_lower ''lowestEave'') = None"
    by code_simp
  have v3: "Building_find building_height_stat ''HEIGHT_HEIGHT_VAL'' =
              Some (Elem (ceg ''HEIGHT_HEIGHT_VAL'') [] (Some ''12.5'') [])"
    by code_simp
  have r3: "Building_find building_height_stat ''HEIGHT_HEIGHT_REF'' = None"
    by code_simp
  have s3: "Building_find building_height_stat ''HEIGHT_HEIGHT_STAT'' =
              Some (Elem (ceg ''HEIGHT_HEIGHT_STAT'') [] (Some ''measured'') [])"
    by code_simp
  have d3: "height_status_dict (py_lower ''measured'') = None"
    by code_simp
  show ?thesis
    using C6_height_above_ground [OF v1] C6_height_above_ground [OF v2]
      C6_height_above_ground [OF v3]
    by (simp add: v1 r1 s1 d1 r2 d2 r3 s3 d3)
qed

subsection \<open>The children of a building element, by tag\<close>

lemmas qn_inspire = qn_def solve_def py_rpartition_def py_getitem_def py_dict_def inspire_ns_def
lemmas qn_citygml = qn_def solve_def py_rpartition_def py_getitem_def py_dict_def city_gml_ns_def

lemma run_blocks_Cons:
  "run_blocks (s # ss) bu = Inr kids \<longleftrightarrow>
     (\<exists>es rest. s bu = Inr es \<and> run_blocks ss bu = Inr rest \<and> kids = es @ rest)"
  by (auto simp: ebind_eq_Inr)

lemma filter_other_tag:
  "\<forall>e \<in> set es. tag e = t \<Longrightarrow> t \<noteq> g \<Longrightarrow> filter (\<lambda>e. tag e = g) es = []"
  by (induction es) auto

lemma emap_tags:
  "emap f xs = Inr es \<Longrightarrow> (\<And>x e. f x = Inr e \<Longrightarrow> tag e = t) \<Longrightarrow> \<forall>e \<in> set es. tag e = t"
  by (induction xs arbitrary: es) (auto simp: ebind_eq_Inr)

lemma inspire_block_tags:
  "inspire_lifespan bu = Inr es \<Longrightarrow> \<forall>e \<in> set es. tag e = iq ''bu-base:beginLifespanVersion''"
  "inspire_condition bu = Inr es \<Longrightarrow> \<forall>e \<in> set es. tag e = iq ''bu-base:conditionOfConstruction''"
  "inspire_date_of_construction bu = Inr es \<Longrightarrow> \<forall>e \<in> set es. tag e = iq ''bu-base:dateOfConstruction''"
  "inspire_date_of_renovation bu = Inr es \<Longrightarrow> \<forall>e \<in> set es. tag e = iq ''bu-base:dateOfConstruction''"
  "inspire_external_reference bu = Inr es \<Longrightarrow> \<forall>e \<in> set es. tag e = iq ''bu-base:externalReference''"
  "inspire_height_above_ground bu = Inr es \<Longrightarrow> \<forall>e \<in> set es. tag e = iq ''bu-base:heightAboveGround''"
  "inspire_id bu = Inr es \<Longrightarrow> \<forall>e \<in> set es. tag e = iq ''bu-base:inspireId''"
  "inspire_building_nature bu = Inr es \<Longrightarrow> \<forall>e \<in> set es. tag e = iq ''bu-base:buildingNature''"
  "inspire_units bu = Inr es \<Longrightarrow> \<forall>e \<in> set es. tag e = iq ''bu-base:numberOfBuildingUnits''"
  "inspire_floors bu = Inr es \<Longrightarrow> \<forall>e \<in> set es. tag e = iq ''bu-base:numberOfFloorsAboveGround''"
  "inspire_geometry bu = Inr es \<Longrightarrow> \<forall>e \<in> set es. tag e = iq ''bu-core2d:geometry2D''"
  by (auto simp: inspire_lifespan_def inspire_condition_def inspire_date_of_construction_def
      inspire_date_of_renovation_def inspire_external_reference_def
      inspire_height_above_ground_def inspire_id_def inspire_building_nature_def
      inspire_units_def inspire_floors_def inspire_geometry_def ebind_eq_Inr
      split: if_splits option.splits)

lemma inspire_use_block_tag: "inspire_use_block use = Inr e \<Longrightarrow> tag e = iq ''bu-base:currentUse''"
  by (auto simp: inspire_use_block_def ebind_eq_Inr split: prod.splits)

lemma inspire_current_use_tags:
  "inspire_current_use bu = Inr es \<Longrightarrow> \<forall>e \<in> set es. tag e = iq ''bu-base:currentUse''"
  by (auto simp: inspire_current_use_def ebind_eq_Inr split: if_splits option.splits
      dest!: emap_tags [where t = "iq ''bu-base:currentUse''"] intro: inspire_use_block_tag)

lemma inspire_tag_values:
  "iq ''bu-base:beginLifespanVersion'' = ''{http://inspire.ec.europa.eu/schemas/bu-base/4.0}beginLifespanVersion''"
  "iq ''bu-base:conditionOfConstruction'' = ''{http://inspire.ec.europa.eu/schemas/bu-base/4.0}conditionOfConstruction''"
  "iq ''bu-base:dateOfConstruction'' = ''{http://inspire.ec.europa.eu/schemas/bu-base/4.0}dateOfConstruction''"
  "iq ''bu-base:externalReference'' = ''{http://inspire.ec.europa.eu/schemas/bu-base/4.0}externalReference''"
  "iq ''bu-base:heightAboveGround'' = ''{http://inspire.ec.europa.eu/schemas/bu-base/4.0}heightAboveGround''"
  "iq ''bu-base:inspireId'' = ''{http://inspire.ec.europa.eu/schemas/bu-base/4.0}inspireId''"
  "iq ''bu-base:buildingNature'' = ''{http://inspire.ec.europa.eu/schemas/bu-base/4.0}buildingNature''"
  "iq ''bu-base:currentUse'' = ''{http://inspire.ec.europa.eu/schemas/bu-base/4.0}currentUse''"
  "iq ''bu-base:numberOfBuildingUnits'' = ''{http://inspire.ec.europa.eu/schemas/bu-base/4.0}numberOfBuildingUnits''"
  "iq ''bu-base:numberOfFloorsAboveGround'' = ''{http://inspire.ec.europa.eu/schemas/bu-base/4.0}numberOfFloorsAboveGround''"
  "iq ''bu-core2d:geometry2D'' = ''{http://inspire.ec.europa.eu/schemas/bu-core2d/4.0}geometry2D''"
  by (simp_all add: qn_inspire)

lemma inspire_geometry_tag_values:
  "iq ''bu-base:BuildingGeometry2D'' = ''{http://inspire.ec.europa.eu/schemas/bu-base/4.0}BuildingGeometry2D''"
  "iq ''bu-base:geometry'' = ''{http://inspire.ec.europa.eu/schemas/bu-base/4.0}geometry''"
  "iq ''bu-base:referenceGeometry'' = ''{http://inspire.ec.europa.eu/schemas/bu-base/4.0}referenceGeometry''"
  "iq ''bu-base:horizontalGeometryReference'' = ''{http://inspire.ec.europa.eu/schemas/bu-base/4.0}horizontalGeometryReference''"
  "iq ''bu-base:horizontalGeometryEstimatedAccuracy'' = ''{http://inspire.ec.europa.eu/schemas/bu-base/4.0}horizontalGeometryEstimatedAccuracy''"
  "iq ''gml:Polygon'' = ''{http://www.opengis.net/gml/3.2}Polygon''"
  "iq ''gml:exterior'' = ''{http://www.opengis.net/gml/3.2}exterior''"
  "iq ''gml:LinearRing'' = ''{http://www.opengis.net/gml/3.2}LinearRing''"
  "iq ''gml:coordinates'' = ''{http://www.opengis.net/gml/3.2}coordinates''"
  by (simp_all add: qn_inspire)

lemma filter_tags:
  "\<forall>e \<in> set es. tag e = t \<Longrightarrow> filter (\<lambda>e. tag e = g) es = (if t = g then es else [])"
  by (induction es) auto

lemma inspire_building_children:
  assumes "inspire_building bu = Inr b"
  obtains e1 e2 e3 e4 e5 e6 e7 e8 e9 e10 e11 e12 where
    "inspire_lifespan bu = Inr e1" "inspire_condition bu = Inr e2"
    "inspire_date_of_construction bu = Inr e3" "inspire_date_of_renovation bu = Inr e4"
    "inspire_external_reference bu = Inr e5" "inspire_height_above_ground bu = Inr e6"
    "inspire_id bu = Inr e7" "inspire_building_nature bu = Inr e8"
    "inspire_current_use bu = Inr e9" "inspire_units bu = Inr e10"
    "inspire_floors bu = Inr e11" "inspire_geometry bu = Inr e12"
    "b = Elem (iq ''bu-core2d:Building'') [] None
           (e1 @ e2 @ e3 @ e4 @ e5 @ e6 @ e7 @ e8 @ e9 @ e10 @ e11 @ e12)"
  using assms
  by (auto simp: inspire_building_def inspire_blocks_def ebind_eq_Inr)

lemma inspire_filter_children:
  assumes "inspire_building bu = Inr b"
  shows "filter (\<lambda>e. tag e = iq ''bu-core2d:geometry2D'') (children b) =
           projr (inspire_geometry bu)"
    and "filter (\<lambda>e. tag e = iq ''bu-base:conditionOfConstruction'') (children b) =
           projr (inspire_condition bu)"
proof -
  from assms obtain e1 e2 e3 e4 e5 e6 e7 e8 e9 e10 e11 e12 where h:
    "inspire_lifespan bu = Inr e1" "inspire_condition bu = Inr e2"
    "inspire_date_of_construction bu = Inr e3" "inspire_date_of_renovation bu = Inr e4"
    "inspire_external_reference bu = Inr e5" "inspire_height_above_ground bu = Inr e6"
    "inspire_id bu = Inr e7" "inspire_building_nature bu = Inr e8"
    "inspire_units bu = Inr e10"
    "inspire_floors bu = Inr e11" "inspire_geometry bu = Inr e12"
    and h9: "inspire_current_use bu = Inr e9"
    and b: "b = Elem (iq ''bu-core2d:Building'') [] None
           (e1 @ e2 @ e3 @ e4 @ e5 @ e6 @ e7 @ e8 @ e9 @ e10 @ e11 @ e12)"
    by (rule inspire_building_children)
  note t = inspire_block_tags(1) [OF h(1)] inspire_block_tags(2) [OF h(2)] inspire_block_tags(3) [OF h(3)] inspire_block_tags(4) [OF h(4)]
    inspire_block_tags(5) [OF h(5)] inspire_block_tags(6) [OF h(6)] inspire_block_tags(7) [OF h(7)] inspire_block_tags(8) [OF h(8)]
    inspire_block_tags(9) [OF h(9)] inspire_block_tags(10) [OF h(10)] inspire_block_tags(11) [OF h(11)]
    inspire_current_use_tags [OF h9]
  show "filter (\<lambda>e. tag e = iq ''bu-core2d:geometry2D'') (children b) =
           projr (inspire_geometry bu)"
    by (simp add: b h t [THEN filter_tags] inspire_tag_values)
  show "filter (\<lambda>e. tag e = iq ''bu-base:conditionOfConstruction'') (children b) =
           projr (inspire_condition bu)"
    by (simp add: b h t [THEN filter_tags] inspire_tag_values)
qed

lemma inspire_coordinates:
  assumes "inspire_building bu = Inr b"
  shows "\<exists>co. Building_find bu coordinates_attribute = Some co \<and>
           select_steps
             [iq ''bu-core2d:geometry2D'', iq ''bu-base:BuildingGeometry2D'',
              iq ''bu-base:geometry'', iq ''gml:Polygon'', iq ''gml:exterior'',
              iq ''gml:LinearRing'', iq ''gml:coordinates''] b =
             [Elem (iq ''gml:coordinates'') (attrib co) (etext co) []]"
proof -
  from assms obtain es where es: "inspire_geometry bu = Inr es"
    by (rule inspire_building_children)
  then obtain co where co: "Building_find bu coordinates_attribute = Some co"
    by (auto simp: inspire_geometry_def split: option.splits)
  have "filter (\<lambda>e. tag e = iq ''bu-core2d:geometry2D'') (children b) =
          projr (inspire_geometry bu)"
    by (rule inspire_filter_children(1) [OF assms])
  then have "select_steps
             [iq ''bu-core2d:geometry2D'', iq ''bu-base:BuildingGeometry2D'',
              iq ''bu-base:geometry'', iq ''gml:Polygon'', iq ''gml:exterior'',
              iq ''gml:LinearRing'', iq ''gml:coordinates''] b =
             [Elem (iq ''gml:coordinates'') (attrib co) (etext co) []]"
    by (simp add: inspire_geometry_def co inspire_geometry_tag_values)
  with co show ?thesis by blast
qed




section \<open>The CityGML translator\<close>

lemma ebindE:
  assumes "ebind r f = Inr y"
  obtains v where "r = Inr v" "f v = Inr y"
  using assms by (auto simp: ebind_eq_Inr)

lemma demand_element_Inr:
  assumes "demand_element ct years uom vals = Inr es"
  obtains ys l f terms where "py_sorted years = Inr ys" "ys \<noteq> []"
    "py_int (last ys) = Inr l" "py_int (hd ys) = Inr f" "int (length years) = l - f + 1"
    "emap (value_term years vals) ys = Inr terms"
    "es = [energy_demand ct (hd ys) (last ys) (py_str_nat (length years)) uom
             (py_strip (concat terms))]"
proof -
  from assms obtain ys where ys: "py_sorted years = Inr ys" and
    a: "(if ys = [] then Inl IndexError
       else
         ebind (py_int (last ys)) (\<lambda>last_year.
         ebind (py_int (hd ys)) (\<lambda>first_year.
           if int (length years) \<noteq> last_year - first_year + 1
           then Inl (UnboundLocalError YearsConsecutive)
           else
             ebind (emap (value_term years vals) ys) (\<lambda>terms.
               Inr [energy_demand ct (hd ys) (last ys)
                      (py_str_nat (length years)) uom (py_strip (concat terms))])))) = Inr es"
    unfolding demand_element_def by (rule ebindE)
  have ne: "ys \<noteq> []"
    using a by (cases "ys = []") simp_all
  with a obtain l where l: "py_int (last ys) = Inr l" and
    b: "ebind (py_int (hd ys)) (\<lambda>first_year.
           if int (length years) \<noteq> l - first_year + 1
           then Inl (UnboundLocalError YearsConsecutive)
           else
             ebind (emap (value_term years vals) ys) (\<lambda>terms.
               Inr [energy_demand ct (hd ys) (last ys)
                      (py_str_nat (length years)) uom (py_strip (concat terms))])) = Inr es"
    by (simp only: if_False) (erule ebindE)
  from b obtain f where f: "py_int (hd ys) = Inr f" and
    c: "(if int (length years) \<noteq> l - f + 1
           then Inl (UnboundLocalError YearsConsecutive)
           else
             ebind (emap (value_term years vals) ys) (\<lambda>terms.
               Inr [energy_demand ct (hd ys) (last ys)
                      (py_str_nat (length years)) uom (py_strip (concat terms))])) = Inr es"
    by (rule ebindE)
  have eq: "int (length years) = l - f + 1"
    using c by (cases "int (length years) = l - f + 1") simp_all
  with c have "ebind (emap (value_term years vals) ys) (\<lambda>terms.
               Inr [energy_demand ct (hd ys) (last ys)
                      (py_str_nat (length years)) uom (py_strip (concat terms))]) = Inr es"
    by (simp only: not_not refl if_False simp_thms)
  then obtain terms where "emap (value_term years vals) ys = Inr terms"
    "es = [energy_demand ct (hd ys) (last ys) (py_str_nat (length years)) uom
             (py_strip (concat terms))]"
    by (auto elim: ebindE)
  with ys ne l f eq show ?thesis by (rule that)
qed

lemma make_demand_tags:
  assumes "make_demand bu carrier = Inr es"
  shows "\<forall>e \<in> set es. tag e = cq ''energy:demands''"
proof -
  from assms obtain ct years uom vals where "demand_element ct years uom vals = Inr es"
    unfolding make_demand_def by (auto elim!: ebindE)
  then show ?thesis
    by (rule demand_element_Inr) (simp add: energy_demand_def)
qed

lemma citygml_tag_values:
  "cq ''gml:name'' = ''{http://www.opengis.net/gml}name''"
  "cq ''core:creationDate'' = ''{http://www.opengis.net/citygml/2.0}creationDate''"
  "cq ''core:terminationDate'' = ''{http://www.opengis.net/citygml/2.0}terminationDate''"
  "cq ''core:externalReference'' = ''{http://www.opengis.net/citygml/2.0}externalReference''"
  "cq ''energy:demands'' = ''{http://www.sig3d.org/citygml/2.0/energy/1.0}demands''"
  "cq ''bldg:usage'' = ''{http://www.opengis.net/citygml/building/2.0}usage''"
  "cq ''bldg:yearOfConstruction'' = ''{http://www.opengis.net/citygml/building/2.0}yearOfConstruction''"
  "cq ''bldg:roofType'' = ''{http://www.opengis.net/citygml/building/2.0}roofType''"
  "cq ''bldg:storeysAboveGround'' = ''{http://www.opengis.net/citygml/building/2.0}storeysAboveGround''"
  "cq ''bldg:storeyHeightsAboveGround'' = ''{http://www.opengis.net/citygml/building/2.0}storeyHeightsAboveGround''"
  "cq ''bldg:lod0FootPrint'' = ''{http://www.opengis.net/citygml/building/2.0}lod0FootPrint''"
  "cq ''energy:refurbishmentMeasure'' = ''{http://www.sig3d.org/citygml/2.0/energy/1.0}refurbishmentMeasure''"
  "cq ''energy:energyPerformanceCertification'' = ''{http://www.sig3d.org/citygml/2.0/energy/1.0}energyPerformanceCertification''"
  "cq ''energy:heightAboveGround'' = ''{http://www.sig3d.org/citygml/2.0/energy/1.0}heightAboveGround''"
  "cq ''energy:volume'' = ''{http://www.sig3d.org/citygml/2.0/energy/1.0}volume''"
  "cq ''energy:floorArea'' = ''{http://www.sig3d.org/citygml/2.0/energy/1.0}floorArea''"
  "cq ''energy:buildingType'' = ''{http://www.sig3d.org/citygml/2.0/energy/1.0}buildingType''"
  by (simp_all add: qn_citygml)

lemma citygml_block_no_footprint:
  "citygml_name bu = Inr es \<Longrightarrow> filter (\<lambda>e. tag e = cq ''bldg:lod0FootPrint'') es = []"
  "citygml_creation_date bu = Inr es \<Longrightarrow> filter (\<lambda>e. tag e = cq ''bldg:lod0FootPrint'') es = []"
  "citygml_termination_date bu = Inr es \<Longrightarrow> filter (\<lambda>e. tag e = cq ''bldg:lod0FootPrint'') es = []"
  "citygml_external_reference bu = Inr es \<Longrightarrow> filter (\<lambda>e. tag e = cq ''bldg:lod0FootPrint'') es = []"
  "citygml_id bu = Inr es \<Longrightarrow> filter (\<lambda>e. tag e = cq ''bldg:lod0FootPrint'') es = []"
  "citygml_usage bu = Inr es \<Longrightarrow> filter (\<lambda>e. tag e = cq ''bldg:lod0FootPrint'') es = []"
  "citygml_year_of_construction bu = Inr es \<Longrightarrow> filter (\<lambda>e. tag e = cq ''bldg:lod0FootPrint'') es = []"
  "citygml_roof_type bu = Inr es \<Longrightarrow> filter (\<lambda>e. tag e = cq ''bldg:lod0FootPrint'') es = []"
  "citygml_storeys bu = Inr es \<Longrightarrow> filter (\<lambda>e. tag e = cq ''bldg:lod0FootPrint'') es = []"
  "citygml_refurbishment bu = Inr es \<Longrightarrow> filter (\<lambda>e. tag e = cq ''bldg:lod0FootPrint'') es = []"
  "citygml_certification bu = Inr es \<Longrightarrow> filter (\<lambda>e. tag e = cq ''bldg:lod0FootPrint'') es = []"
  "citygml_height_above_ground bu = Inr es \<Longrightarrow> filter (\<lambda>e. tag e = cq ''bldg:lod0FootPrint'') es = []"
  "citygml_volume bu = Inr es \<Longrightarrow> filter (\<lambda>e. tag e = cq ''bldg:lod0FootPrint'') es = []"
  "citygml_energy_volume bu = Inr es \<Longrightarrow> filter (\<lambda>e. tag e = cq ''bldg:lod0FootPrint'') es = []"
  "citygml_floor_area bu = Inr es \<Longrightarrow> filter (\<lambda>e. tag e = cq ''bldg:lod0FootPrint'') es = []"
  "citygml_building_type bu = Inr es \<Longrightarrow> filter (\<lambda>e. tag e = cq ''bldg:lod0FootPrint'') es = []"
  by (auto simp: citygml_name_def citygml_creation_date_def citygml_termination_date_def
      citygml_external_reference_def citygml_id_def citygml_usage_def
      citygml_year_of_construction_def citygml_roof_type_def citygml_storeys_def
      citygml_refurbishment_def citygml_certification_def citygml_height_above_ground_def
      citygml_volume_def citygml_energy_volume_def citygml_floor_area_def
      citygml_building_type_def ebind_eq_Inr citygml_tag_values
      split: if_splits)

lemma citygml_demand_no_footprint:
  "citygml_demand_electricity bu = Inr es \<Longrightarrow> filter (\<lambda>e. tag e = cq ''bldg:lod0FootPrint'') es = []"
  "citygml_demand_thermal bu = Inr es \<Longrightarrow> filter (\<lambda>e. tag e = cq ''bldg:lod0FootPrint'') es = []"
  by (auto simp: citygml_demand_electricity_def citygml_demand_thermal_def citygml_tag_values
      filter_tags [OF make_demand_tags] split: if_splits)

lemma run_blocks_projr:
  assumes "run_blocks blocks bu = Inr kids"
  shows "kids = concat (map (\<lambda>s. projr (s bu)) blocks)
         \<and> (\<forall>s \<in> set blocks. s bu = Inr (projr (s bu)))"
  using assms
proof (induction blocks arbitrary: kids)
  case Nil
  then show ?case by simp
next
  case (Cons s ss)
  from Cons.prems obtain es rest
    where "s bu = Inr es" "run_blocks ss bu = Inr rest" "kids = es @ rest"
    unfolding run_blocks_Cons by blast
  with Cons.IH [of rest] show ?case by simp
qed

lemma citygml_coordinates:
  assumes "citygml_building bu = Inr b"
  shows "\<exists>co. Building_find bu coordinates_attribute = Some co \<and>
           select_steps
             [cq ''bldg:lod0FootPrint'', cq ''gml:MultiSurface'', cq ''gml:surfaceMember'',
              cq ''gml:Polygon'', cq ''gml:outerBoundaryIs'', cq ''gml:LinearRing'',
              cq ''gml:coordinates''] b =
             [Elem (cq ''gml:coordinates'') (attrib co) (etext co) []]"
proof -
  from assms obtain kids where kids: "run_blocks citygml_blocks bu = Inr kids"
    and b: "b = Elem (cq ''bldg:Building'') [] None kids"
    unfolding citygml_building_def by (auto elim!: ebindE)
  note r = run_blocks_projr [OF kids]
  have ok: "\<forall>s \<in> set citygml_blocks. s bu = Inr (projr (s bu))"
    using r by (rule conjunct2)
  have h: "citygml_name bu = Inr (projr (citygml_name bu))"
    "citygml_creation_date bu = Inr (projr (citygml_creation_date bu))"
    "citygml_termination_date bu = Inr (projr (citygml_termination_date bu))"
    "citygml_external_reference bu = Inr (projr (citygml_external_reference bu))"
    "citygml_id bu = Inr (projr (citygml_id bu))"
    "citygml_usage bu = Inr (projr (citygml_usage bu))"
    "citygml_year_of_construction bu = Inr (projr (citygml_year_of_construction bu))"
    "citygml_roof_type bu = Inr (projr (citygml_roof_type bu))"
    "citygml_storeys bu = Inr (projr (citygml_storeys bu))"
    "citygml_refurbishment bu = Inr (projr (citygml_refurbishment bu))"
    "citygml_certification bu = Inr (projr (citygml_certification bu))"
    "citygml_height_above_ground bu = Inr (projr (citygml_height_above_ground bu))"
    "citygml_volume bu = Inr (projr (citygml_volume bu))"
    "citygml_energy_volume bu = Inr (projr (citygml_energy_volume bu))"
    "citygml_floor_area bu = Inr (projr (citygml_floor_area bu))"
    "citygml_building_type bu = Inr (projr (citygml_building_type bu))"
    and d: "citygml_demand_electricity bu = Inr (projr (citygml_demand_electricity bu))"
    "citygml_demand_thermal bu = Inr (projr (citygml_demand_thermal bu))"
    and g: "citygml_geometry bu = Inr (projr (citygml_geometry bu))"
    using ok unfolding citygml_blocks_def by (simp_all only: list.set ball_simps)
  from g obtain co where co: "Building_find bu coordinates_attribute = Some co"
    by (auto simp: citygml_geometry_def split: option.splits)
  note n = citygml_block_no_footprint(1) [OF h(1)] citygml_block_no_footprint(2) [OF h(2)]
    citygml_block_no_footprint(3) [OF h(3)] citygml_block_no_footprint(4) [OF h(4)]
    citygml_block_no_footprint(5) [OF h(5)] citygml_block_no_footprint(6) [OF h(6)]
    citygml_block_no_footprint(7) [OF h(7)] citygml_block_no_footprint(8) [OF h(8)]
    citygml_block_no_footprint(9) [OF h(9)] citygml_block_no_footprint(10) [OF h(10)]
    citygml_block_no_footprint(11) [OF h(11)] citygml_block_no_footprint(12) [OF h(12)]
    citygml_block_no_footprint(13) [OF h(13)] citygml_block_no_footprint(14) [OF h(14)]
    citygml_block_no_footprint(15) [OF h(15)] citygml_block_no_footprint(16) [OF h(16)]
    citygml_demand_no_footprint(1) [OF d(1)] citygml_demand_no_footprint(2) [OF d(2)]
  have e12: "projr (citygml_geometry bu) =
               [Elem (cq ''bldg:lod0FootPrint'') [] None
                 [Elem (cq ''gml:MultiSurface'') [] None
                    [Elem (cq ''gml:surfaceMember'') [] None
                       [Elem (cq ''gml:Polygon'') [] None
                          [Elem (cq ''gml:outerBoundaryIs'') [] None
                             [Elem (cq ''gml:LinearRing'') [] None
                                [Elem (cq ''gml:coordinates'') (attrib co) (etext co) []]]]]]]]"
    using co by (simp add: citygml_geometry_def)
  have k: "kids = concat (map (\<lambda>s. projr (s bu)) citygml_blocks)"
    using r by (rule conjunct1)
  have "filter (\<lambda>e. tag e = cq ''bldg:lod0FootPrint'') (children b) =
          projr (citygml_geometry bu)"
    unfolding b k citygml_blocks_def by (simp add: n) (simp add: e12)
  then have "select_steps
             [cq ''bldg:lod0FootPrint'', cq ''gml:MultiSurface'', cq ''gml:surfaceMember'',
              cq ''gml:Polygon'', cq ''gml:outerBoundaryIs'', cq ''gml:LinearRing'',
              cq ''gml:coordinates''] b =
             [Elem (cq ''gml:coordinates'') (attrib co) (etext co) []]"
    by (simp add: e12)
  with co show ?thesis by blast
qed

text \<open>
  Claim C7. Whenever the building element of a record is built, in either translator,
  the path from the building element down to the coordinates of the footprint selects
  exactly one element, and its attributes and its text are those of the coordinates
  element that \<^verbatim>\<open>bu.find\<close> returns for the source path
  \<^verbatim>\<open>GEOMETRY2D/gml:Polygon/gml:outerBoundaryIs/gml:LinearRing/gml:coordinates\<close>:
  the coordinate string is copied unchanged.
\<close>

theorem C7_coordinates_verbatim:
  "(\<forall>b. inspire_building bu = Inr b \<longrightarrow>
      (\<exists>co. Building_find bu coordinates_attribute = Some co \<and>
         select_steps
           [iq ''bu-core2d:geometry2D'', iq ''bu-base:BuildingGeometry2D'',
            iq ''bu-base:geometry'', iq ''gml:Polygon'', iq ''gml:exterior'',
            iq ''gml:LinearRing'', iq ''gml:coordinates''] b =
           [Elem (iq ''gml:coordinates'') (attrib co) (etext co) []]))
   \<and> (\<forall>b. citygml_building bu = Inr b \<longrightarrow>
      (\<exists>co. Building_find bu coordinates_attribute = Some co \<and>
         select_steps
           [cq ''bldg:lod0FootPrint'', cq ''gml:MultiSurface'', cq ''gml:surfaceMember'',
            cq ''gml:Polygon'', cq ''gml:outerBoundaryIs'', cq ''gml:LinearRing'',
            cq ''gml:coordinates''] b =
           [Elem (cq ''gml:coordinates'') (attrib co) (etext co) []]))"
  using inspire_coordinates citygml_coordinates by blast

theorem C7_witness:
  "Building_find building_plain coordinates_attribute =
     Some (Elem (gml ''coordinates'') [(''decimal'', ''.''), (''cs'', '',''), (''ts'', '' '')]
             (Some ''5,6 7,8 5,6'') [])
   \<and> \<not> isl (inspire_building building_plain)
   \<and> select_steps
        [iq ''bu-core2d:geometry2D'', iq ''bu-base:BuildingGeometry2D'',
         iq ''bu-base:geometry'', iq ''gml:Polygon'', iq ''gml:exterior'',
         iq ''gml:LinearRing'', iq ''gml:coordinates'']
        (projr (inspire_building building_plain)) =
       [Elem (iq ''gml:coordinates'') [(''decimal'', ''.''), (''cs'', '',''), (''ts'', '' '')]
          (Some ''5,6 7,8 5,6'') []]
   \<and> \<not> isl (citygml_building building_plain)
   \<and> select_steps
        [cq ''bldg:lod0FootPrint'', cq ''gml:MultiSurface'', cq ''gml:surfaceMember'',
         cq ''gml:Polygon'', cq ''gml:outerBoundaryIs'', cq ''gml:LinearRing'',
         cq ''gml:coordinates'']
        (projr (citygml_building building_plain)) =
       [Elem (cq ''gml:coordinates'') [(''decimal'', ''.''), (''cs'', '',''), (''ts'', '' '')]
          (Some ''5,6 7,8 5,6'') []]"
proof -
  have co: "Building_find building_plain coordinates_attribute =
     Some (Elem (gml ''coordinates'') [(''decimal'', ''.''), (''cs'', '',''), (''ts'', '' '')]
             (Some ''5,6 7,8 5,6'') [])"
    by code_simp
  have i: "\<not> isl (inspire_building building_plain)"
    by code_simp
  then have i': "inspire_building building_plain = Inr (projr (inspire_building building_plain))"
    by simp
  have c: "\<not> isl (citygml_building building_plain)"
    by code_simp
  then have c': "citygml_building building_plain = Inr (projr (citygml_building building_plain))"
    by simp
  note t = C7_coordinates_verbatim [of building_plain]
  from t i' obtain co1 where "Building_find building_plain coordinates_attribute = Some co1"
    "select_steps
        [iq ''bu-core2d:geometry2D'', iq ''bu-base:BuildingGeometry2D'',
         iq ''bu-base:geometry'', iq ''gml:Polygon'', iq ''gml:exterior'',
         iq ''gml:LinearRing'', iq ''gml:coordinates'']
        (projr (inspire_building building_plain)) =
       [Elem (iq ''gml:coordinates'') (attrib co1) (etext co1) []]"
    by blast
  with co have one: "select_steps
        [iq ''bu-core2d:geometry2D'', iq ''bu-base:BuildingGeometry2D'',
         iq ''bu-base:geometry'', iq ''gml:Polygon'', iq ''gml:exterior'',
         iq ''gml:LinearRing'', iq ''gml:coordinates'']
        (projr (inspire_building building_plain)) =
       [Elem (iq ''gml:coordinates'') [(''decimal'', ''.''), (''cs'', '',''), (''ts'', '' '')]
          (Some ''5,6 7,8 5,6'') []]"
    by simp
  from t c' obtain co2 where "Building_find building_plain coordinates_attribute = Some co2"
    "select_steps
        [cq ''bldg:lod0FootPrint'', cq ''gml:MultiSurface'', cq ''gml:surfaceMember'',
         cq ''gml:Polygon'', cq ''gml:outerBoundaryIs'', cq ''gml:LinearRing'',
         cq ''gml:coordinates'']
        (projr (citygml_building building_plain)) =
       [Elem (cq ''gml:coordinates'') (attrib co2) (etext co2) []]"
    by blast
  with co have two: "select_steps
        [cq ''bldg:lod0FootPrint'', cq ''gml:MultiSurface'', cq ''gml:surfaceMember'',
         cq ''gml:Polygon'', cq ''gml:outerBoundaryIs'', cq ''gml:LinearRing'',
         cq ''gml:coordinates'']
        (projr (citygml_building building_plain)) =
       [Elem (cq ''gml:coordinates'') [(''decimal'', ''.''), (''cs'', '',''), (''ts'', '' '')]
          (Some ''5,6 7,8 5,6'') []]"
    by simp
  from co i one c two show ?thesis by blast
qed

subsection \<open>Year texts: text order and numeric order\<close>



















subsection \<open>The values of the sorted years\<close>













end
